theory Spec2Isabelle
  imports Complex_Main
begin

section \<open>Values of the host language\<close>

text \<open>
  The service is TypeScript. A string is modelled as a \<^typ>\<open>string\<close> whose characters
  are code units below 256; among those the white space and line terminators that
  \<^verbatim>\<open>String.prototype.trim\<close> and \<^verbatim>\<open>parseInt\<close> strip are U+0009 to U+000D,
  U+0020 and U+00A0.
\<close>

definition isWhiteSpace :: "char \<Rightarrow> bool" where
  "isWhiteSpace c =
     (let n = (of_char c :: nat) in (9 \<le> n \<and> n \<le> 13) \<or> n = 32 \<or> n = 160)"

definition trimStart :: "string \<Rightarrow> string" where
  "trimStart s = dropWhile isWhiteSpace s"

definition trim :: "string \<Rightarrow> string" where
  "trim s = rev (dropWhile isWhiteSpace (rev (dropWhile isWhiteSpace s)))"

text \<open>
  A \<^verbatim>\<open>number\<close> is an exact rational, or one of the three values that are not finite.
  The service only computes with numbers it has checked to be integers; on those, and on
  the array lengths involved (below \<open>2^32\<close>), the exact results below agree with the
  rounded ones wherever the code compares them or clips them to an array length.
\<close>

datatype number = Num rat | NaN | PosInfinity | NegInfinity

text \<open>\<^verbatim>\<open>x < 1\<close>: false on \<^verbatim>\<open>NaN\<close>.\<close>

fun lessThanOne :: "number \<Rightarrow> bool" where
  "lessThanOne (Num r) = (r < 1)"
| "lessThanOne NaN = False"
| "lessThanOne PosInfinity = False"
| "lessThanOne NegInfinity = True"

text \<open>\<^verbatim>\<open>Number.isInteger(x)\<close>.\<close>

fun isInteger :: "number \<Rightarrow> bool" where
  "isInteger (Num r) = (of_int \<lfloor>r\<rfloor> = r)"
| "isInteger NaN = False"
| "isInteger PosInfinity = False"
| "isInteger NegInfinity = False"

text \<open>The integer a checked number stands for (used only after \<^const>\<open>isInteger\<close>).\<close>

fun toInteger :: "number \<Rightarrow> int" where
  "toInteger (Num r) = \<lfloor>r\<rfloor>"
| "toInteger NaN = 0"
| "toInteger PosInfinity = 0"
| "toInteger NegInfinity = 0"

text \<open>\<^verbatim>\<open>Math.ceil(n / x)\<close> for an array length \<open>n\<close> and a checked number \<open>x\<close>.\<close>

fun ceilDiv :: "nat \<Rightarrow> number \<Rightarrow> int" where
  "ceilDiv n (Num r) = \<lceil>of_nat n / r\<rceil>"
| "ceilDiv n NaN = 0"
| "ceilDiv n PosInfinity = 0"
| "ceilDiv n NegInfinity = 0"

text \<open>\<^verbatim>\<open>Array.prototype.slice(start, end)\<close> on integer arguments.\<close>

definition slice :: "'a list \<Rightarrow> int \<Rightarrow> int \<Rightarrow> 'a list" where
  "slice xs start end' =
     (let len = int (length xs);
          k = (if start < 0 then max (len + start) 0 else min start len);
          final = (if end' < 0 then max (len + end') 0 else min end' len)
      in take (nat (final - k)) (drop (nat k) xs))"

text \<open>\<^verbatim>\<open>Array.prototype.splice(start, deleteCount)\<close>: the array that is left.\<close>

definition spliceArray :: "'a list \<Rightarrow> int \<Rightarrow> int \<Rightarrow> 'a list" where
  "spliceArray xs start deleteCount =
     (let len = int (length xs);
          actualStart = (if start < 0 then max (len + start) 0 else min start len);
          actualDeleteCount = min (max deleteCount 0) (len - actualStart)
      in take (nat actualStart) xs @ drop (nat (actualStart + actualDeleteCount)) xs)"

text \<open>\<^verbatim>\<open>Array.prototype.findIndex\<close>: the first index that satisfies the predicate, or -1.\<close>

fun findIndexFrom :: "('a \<Rightarrow> bool) \<Rightarrow> 'a list \<Rightarrow> int \<Rightarrow> int" where
  "findIndexFrom P [] k = - 1"
| "findIndexFrom P (x # xs) k = (if P x then k else findIndexFrom P xs (k + 1))"

definition findIndex :: "('a \<Rightarrow> bool) \<Rightarrow> 'a list \<Rightarrow> int" where
  "findIndex P xs = findIndexFrom P xs 0"

text \<open>\<^verbatim>\<open>Array.prototype.some\<close>.\<close>

definition some :: "('a \<Rightarrow> bool) \<Rightarrow> 'a list \<Rightarrow> bool" where
  "some P xs = list_ex P xs"

text \<open>\<^verbatim>\<open>Number.prototype.toString\<close> on an array length: its decimal digits.\<close>

definition digitChar :: "nat \<Rightarrow> char" where
  "digitChar d = ''0123456789'' ! d"

function toString :: "nat \<Rightarrow> string" where
  "toString n = (if n < 10 then [digitChar n] else toString (n div 10) @ [digitChar (n mod 10)])"
  by pat_completeness auto
termination
  by (relation "measure id") auto

declare toString.simps [simp del]

text \<open>
  \<^verbatim>\<open>parseInt(text)\<close> with no radix: leading white space is skipped, then an optional
  sign, then the prefix \<^verbatim>\<open>0x\<close> or \<^verbatim>\<open>0X\<close> selects radix 16 (otherwise 10), then the
  longest run of digits of the radix is read. \<open>None\<close> is \<^verbatim>\<open>NaN\<close> (no digit was read).
\<close>

definition digitValue :: "nat \<Rightarrow> char \<Rightarrow> nat option" where
  "digitValue radix c =
     (let n = (of_char c :: nat);
          v = (if 48 \<le> n \<and> n \<le> 57 then Some (n - 48)
               else if 97 \<le> n \<and> n \<le> 122 then Some (n - 87)
               else if 65 \<le> n \<and> n \<le> 90 then Some (n - 55)
               else None)
      in case v of None \<Rightarrow> None | Some d \<Rightarrow> if d < radix then Some d else None)"

fun readDigits :: "nat \<Rightarrow> string \<Rightarrow> nat \<Rightarrow> nat" where
  "readDigits radix [] acc = acc"
| "readDigits radix (c # cs) acc =
     (case digitValue radix c of
        None \<Rightarrow> acc
      | Some d \<Rightarrow> readDigits radix cs (acc * radix + d))"

definition hasDigit :: "nat \<Rightarrow> string \<Rightarrow> bool" where
  "hasDigit radix s = (case s of [] \<Rightarrow> False | c # cs \<Rightarrow> digitValue radix c \<noteq> None)"

definition parseInt :: "string \<Rightarrow> int option" where
  "parseInt inputString =
     (let S = trimStart inputString;
          sign = (if S \<noteq> [] \<and> hd S = CHR ''-'' then - 1 else (1 :: int));
          S1 = (if S \<noteq> [] \<and> (hd S = CHR ''+'' \<or> hd S = CHR ''-'') then tl S else S);
          hex = (take 2 S1 = ''0x'' \<or> take 2 S1 = ''0X'');
          R = (if hex then 16 else 10);
          S2 = (if hex then drop 2 S1 else S1)
      in if hasDigit R S2 then Some (sign * int (readDigits R S2 0)) else None)"

section \<open>The favorites store\<close>

text \<open>
  \<^verbatim>\<open>MovieDto\<close>, the record kept in the favorites collection. The search results carry
  the year as text and add the favorite flag, so the year's type is a parameter and the
  flag is an extension.
\<close>

record 'y movie =
  title :: string
  imdbID :: string
  year :: 'y
  poster :: string

type_synonym MovieDto = "int movie"

text \<open>\<^verbatim>\<open>HttpException(message, status)\<close>, the only exception the service lets out.\<close>

datatype HttpStatus =
  BAD_REQUEST | UNAUTHORIZED | NOT_FOUND | REQUEST_TIMEOUT
  | INTERNAL_SERVER_ERROR | BAD_GATEWAY | SERVICE_UNAVAILABLE

datatype HttpException = HttpException string HttpStatus

text \<open>
  The backing file \<^verbatim>\<open>data/favorites.json\<close>: it does not exist, or it holds text that
  \<^verbatim>\<open>readFileSync\<close> followed by \<^verbatim>\<open>JSON.parse\<close> throws on (the text is kept), or it
  holds the JSON of an array of records, the only thing \<^verbatim>\<open>saveFavorites\<close> writes.
  (Text that parses to something else than an array of records is outside the declared
  type \<^verbatim>\<open>MovieDto[]\<close> of the collection and outside this model.)
\<close>

datatype backing_file = Absent | Unparseable string | Stored "MovieDto list"

text \<open>The service's state: the in-memory collection, and the file on disk.\<close>

record store =
  favorites :: "MovieDto list"
  favoritesFile :: backing_file

text \<open>
  \<^verbatim>\<open>saveFavorites\<close>. The flag says whether \<^verbatim>\<open>writeFileSync\<close> succeeds; it is the
  environment's, given anew for every write. A failed write leaves the file as it was and
  is thrown as status 500.
\<close>

definition saveFavorites :: "bool \<Rightarrow> store \<Rightarrow> HttpException + store" where
  "saveFavorites writeOk s =
     (if writeOk then Inr (s\<lparr>favoritesFile := Stored (favorites s)\<rparr>)
      else Inl (HttpException ''Failed to save favorites'' INTERNAL_SERVER_ERROR))"

text \<open>
  \<^verbatim>\<open>loadFavorites\<close>: an existing file is read and parsed; a missing one is created
  holding the empty collection; whatever is thrown inside (a parse error, the failed
  creation) is caught and leaves the empty collection in memory.
\<close>

definition loadFavorites :: "bool \<Rightarrow> store \<Rightarrow> store" where
  "loadFavorites writeOk s =
     (case favoritesFile s of
        Stored xs \<Rightarrow> s\<lparr>favorites := xs\<rparr>
      | Unparseable t \<Rightarrow> s\<lparr>favorites := []\<rparr>
      | Absent \<Rightarrow>
          (case saveFavorites writeOk (s\<lparr>favorites := []\<rparr>) of
             Inr s' \<Rightarrow> s'
           | Inl e \<Rightarrow> s\<lparr>favorites := []\<rparr>))"

definition reloadFavorites :: "bool \<Rightarrow> store \<Rightarrow> store" where
  "reloadFavorites writeOk s = loadFavorites writeOk s"

text \<open>\<^verbatim>\<open>onModuleInit\<close>, on the store as constructed (nothing in memory).\<close>

definition onModuleInit :: "bool \<Rightarrow> backing_file \<Rightarrow> store" where
  "onModuleInit writeOk f = loadFavorites writeOk \<lparr>favorites = [], favoritesFile = f\<rparr>"

definition getFavoritesSet :: "store \<Rightarrow> string set" where
  "getFavoritesSet s = set (map imdbID (favorites s))"

text \<open>
  \<^verbatim>\<open>addToFavorites(movieToAdd)\<close>; \<open>None\<close> is a missing argument. Every operation
  returns what it returns or throws, and the state it leaves. \<open>loadOk\<close> is the flag of
  the write inside the reload, \<open>saveOk\<close> that of the final save.
\<close>

definition addToFavorites ::
  "bool \<Rightarrow> bool \<Rightarrow> MovieDto option \<Rightarrow> store \<Rightarrow> (HttpException + string) \<times> store" where
  "addToFavorites loadOk saveOk movieToAdd s =
     (case movieToAdd of
        None \<Rightarrow> (Inl (HttpException ''Invalid movie data'' BAD_REQUEST), s)
      | Some m \<Rightarrow>
          if imdbID m = [] then (Inl (HttpException ''Invalid movie data'' BAD_REQUEST), s)
          else
            let s1 = reloadFavorites loadOk s;
                exists = some (\<lambda>movie. imdbID movie = imdbID m) (favorites s1)
            in if exists
               then (Inl (HttpException ''Movie already in favorites'' BAD_REQUEST), s1)
               else
                 let s2 = s1\<lparr>favorites := favorites s1 @ [m]\<rparr>
                 in (case saveFavorites saveOk s2 of
                       Inl e \<Rightarrow> (Inl e, s2)
                     | Inr s3 \<Rightarrow> (Inr ''Movie added to favorites'', s3)))"

text \<open>\<^verbatim>\<open>removeFromFavorites(movieId)\<close>.\<close>

definition removeFromFavorites ::
  "bool \<Rightarrow> bool \<Rightarrow> string \<Rightarrow> store \<Rightarrow> (HttpException + string) \<times> store" where
  "removeFromFavorites loadOk saveOk movieId s =
     (if movieId = [] \<or> length (trim movieId) = 0
      then (Inl (HttpException ''Movie ID is required'' BAD_REQUEST), s)
      else
        let s1 = reloadFavorites loadOk s;
            index = findIndex (\<lambda>movie. imdbID movie = movieId) (favorites s1)
        in if index = - 1
           then (Inl (HttpException ''Movie not found in favorites'' NOT_FOUND), s1)
           else
             let s2 = s1\<lparr>favorites := spliceArray (favorites s1) index 1\<rparr>
             in (case saveFavorites saveOk s2 of
                   Inl e \<Rightarrow> (Inl e, s2)
                 | Inr s3 \<Rightarrow> (Inr ''Movie removed from favorites'', s3)))"

text \<open>\<^verbatim>\<open>FavoritesResult\<close> (the fields of its \<^verbatim>\<open>data\<close>) and \<^verbatim>\<open>getFavorites\<close>.\<close>

record FavoritesResult =
  fr_favorites :: "MovieDto list"
  fr_count :: nat
  fr_totalResults :: string
  fr_currentPage :: number
  fr_totalPages :: int

definition getFavorites ::
  "bool \<Rightarrow> number \<Rightarrow> number \<Rightarrow> store \<Rightarrow> (HttpException + FavoritesResult) \<times> store" where
  "getFavorites loadOk page pageSize s =
     (if lessThanOne page \<or> \<not> isInteger page
      then (Inl (HttpException ''Page must be a positive integer'' BAD_REQUEST), s)
      else if lessThanOne pageSize \<or> \<not> isInteger pageSize
      then (Inl (HttpException ''Page size must be a positive integer'' BAD_REQUEST), s)
      else
        let s1 = reloadFavorites loadOk s
        in if length (favorites s1) = 0
           then (Inr \<lparr>fr_favorites = [], fr_count = 0, fr_totalResults = ''0'',
                      fr_currentPage = page, fr_totalPages = 0\<rparr>, s1)
           else
             let startIndex = (toInteger page - 1) * toInteger pageSize;
                 endIndex = startIndex + toInteger pageSize;
                 paginatedFavorites = slice (favorites s1) startIndex endIndex;
                 totalPages = ceilDiv (length (favorites s1)) pageSize
             in (Inr \<lparr>fr_favorites = paginatedFavorites,
                      fr_count = length paginatedFavorites,
                      fr_totalResults = toString (length (favorites s1)),
                      fr_currentPage = page,
                      fr_totalPages = totalPages\<rparr>, s1))"

section \<open>The catalog search\<close>

text \<open>
  What the provider sends: items with capitalised field names, the total as text, the
  success flag as text, an error message. Optional fields may be missing.
\<close>

record omdb_movie =
  Title :: string
  imdbID_omdb :: string
  Year :: string
  Poster :: string

record OmdbSearchResponse =
  Search :: "omdb_movie list option"
  totalResults :: "string option"
  Response :: string
  Error :: "string option"

text \<open>
  How \<^verbatim>\<open>axios.get\<close> ends: with the provider's response, with an axios error (its code,
  and the status and status text of the response if there was one), or with anything else
  thrown.
\<close>

datatype axios_outcome =
  Fulfilled OmdbSearchResponse
  | AxiosError "string option" "(nat \<times> string) option"
  | OtherError

text \<open>What \<^verbatim>\<open>searchMovies\<close> returns.\<close>

record search_page =
  sp_movies :: "omdb_movie list"
  sp_totalResults :: string

text \<open>A string that is there and not empty is truthy.\<close>

definition truthy :: "string option \<Rightarrow> bool" where
  "truthy v = (case v of None \<Rightarrow> False | Some t \<Rightarrow> t \<noteq> [])"

definition searchMovies :: "string \<Rightarrow> number \<Rightarrow> axios_outcome \<Rightarrow> HttpException + search_page" where
  "searchMovies title' page outcome =
     (if title' = [] \<or> length (trim title') = 0
      then Inl (HttpException ''Search query cannot be empty'' BAD_REQUEST)
      else if lessThanOne page \<or> \<not> isInteger page
      then Inl (HttpException ''Page must be a positive integer'' BAD_REQUEST)
      else
        (case outcome of
           Fulfilled d \<Rightarrow>
             if Response d = ''False'' \<or> truthy (Error d)
             then Inr \<lparr>sp_movies = [], sp_totalResults = ''0''\<rparr>
             else Inr \<lparr>sp_movies = (case Search d of Some ms \<Rightarrow> ms | None \<Rightarrow> []),
                       sp_totalResults =
                         (case totalResults d of
                            Some t \<Rightarrow> if t = [] then ''0'' else t
                          | None \<Rightarrow> ''0'')\<rparr>
         | AxiosError code response \<Rightarrow>
             if code = Some ''ECONNABORTED''
             then Inl (HttpException ''Request timeout: OMDb API did not respond in time''
                        REQUEST_TIMEOUT)
             else if code = Some ''ENOTFOUND''
             then Inl (HttpException
                        ''Unable to connect to OMDb API: DNS lookup failed. Please check your internet connection.''
                        SERVICE_UNAVAILABLE)
             else if code = Some ''ECONNREFUSED''
             then Inl (HttpException ''Unable to connect to OMDb API: Connection refused''
                        SERVICE_UNAVAILABLE)
             else if code = Some ''ETIMEDOUT'' \<or> code = Some ''ENETUNREACH''
             then Inl (HttpException
                        ''Unable to connect to OMDb API: Network error. Please check your internet connection.''
                        SERVICE_UNAVAILABLE)
             else
               (case response of
                  Some (status, statusText) \<Rightarrow>
                    if status = 401
                    then Inl (HttpException ''Invalid OMDb API key'' UNAUTHORIZED)
                    else Inl (HttpException
                               (''OMDb API error: '' @ toString status @ '' '' @ statusText)
                               BAD_GATEWAY)
                | None \<Rightarrow>
                    Inl (HttpException ''Failed to search movies. Please try again later.''
                          INTERNAL_SERVER_ERROR))
         | OtherError \<Rightarrow>
             Inl (HttpException ''Failed to search movies. Please try again later.''
                   INTERNAL_SERVER_ERROR)))"

text \<open>\<^verbatim>\<open>SearchResult\<close> (the fields of its \<^verbatim>\<open>data\<close>): the items carry the favorite flag.\<close>

record 'y tagged_movie = "'y movie" +
  isFavorite :: bool

record SearchResult =
  sr_movies :: "string tagged_movie list"
  sr_count :: nat
  sr_totalResults :: string

text \<open>
  \<^verbatim>\<open>getMovieByTitle\<close>. It reads the collection in memory and does not reload. All that
  \<^verbatim>\<open>searchMovies\<close> throws is an \<^verbatim>\<open>HttpException\<close>, which is thrown on as it is.
\<close>

definition getMovieByTitle ::
  "string \<Rightarrow> number \<Rightarrow> axios_outcome \<Rightarrow> store \<Rightarrow> HttpException + SearchResult" where
  "getMovieByTitle title' page outcome s =
     (case searchMovies title' page outcome of
        Inl error \<Rightarrow> Inl error
      | Inr response \<Rightarrow>
          let favoritesSet = getFavoritesSet s;
              formattedMovies =
                map (\<lambda>movie.
                       \<lparr>title = Title movie, imdbID = imdbID_omdb movie, year = Year movie,
                        poster = Poster movie,
                        isFavorite = (imdbID_omdb movie \<in> favoritesSet)\<rparr>)
                    (sp_movies response)
          in Inr \<lparr>sr_movies = formattedMovies, sr_count = length formattedMovies,
                  sr_totalResults = sp_totalResults response\<rparr>)"

section \<open>The client's next page\<close>

text \<open>
  \<^verbatim>\<open>getNextPageParam\<close> of \<^verbatim>\<open>useSearchMovies\<close>, on the total of the last page (\<open>None\<close>
  when the field is missing, which \<^verbatim>\<open>parseInt\<close> reads as the text \<^verbatim>\<open>undefined\<close>) and
  the number of pages fetched. \<^verbatim>\<open>NaN\<close> stays \<^verbatim>\<open>NaN\<close> through the division and the
  rounding, and every comparison with it is false. The result \<open>None\<close> is
  \<^verbatim>\<open>undefined\<close>: no next page.
\<close>

definition getNextPageParam :: "string option \<Rightarrow> nat \<Rightarrow> nat option" where
  "getNextPageParam lastTotalResults allPagesLength =
     (let totalResults =
            parseInt (case lastTotalResults of None \<Rightarrow> ''undefined'' | Some t \<Rightarrow> t);
          currentPage = allPagesLength;
          totalPages = map_option (\<lambda>t. \<lceil>(of_int t :: rat) / 10\<rceil>) totalResults
      in if (case totalPages of None \<Rightarrow> False | Some n \<Rightarrow> int currentPage < n)
         then Some (currentPage + 1) else None)"

section \<open>What the claims speak of\<close>

text \<open>
  The collection the file holds, as \<^const>\<open>loadFavorites\<close> reads it: a missing file and
  one that cannot be read hold nothing.
\<close>

definition fileCollection :: "backing_file \<Rightarrow> MovieDto list" where
  "fileCollection f = (case f of Stored xs \<Rightarrow> xs | Unparseable t \<Rightarrow> [] | Absent \<Rightarrow> [])"

text \<open>
  A call of one of the three operations of the store, with the outcome of the writes it
  may attempt; a sequence of calls runs from a state, each call on the state the one
  before left, whether it returned or threw.
\<close>

datatype call =
  Add bool bool "MovieDto option"
  | Remove bool bool string
  | List bool number number

fun perform :: "call \<Rightarrow> store \<Rightarrow> store" where
  "perform (Add loadOk saveOk movieToAdd) s = snd (addToFavorites loadOk saveOk movieToAdd s)"
| "perform (Remove loadOk saveOk movieId) s = snd (removeFromFavorites loadOk saveOk movieId s)"
| "perform (List loadOk page pageSize) s = snd (getFavorites loadOk page pageSize s)"

fun run :: "call list \<Rightarrow> store \<Rightarrow> store" where
  "run [] s = s"
| "run (c # cs) s = run cs (perform c s)"

text \<open>
  The specification's \<^verbatim>\<open>catalogHasNextPage(totalResultsText, pageSize, pagesFetchedSoFar)\<close>,
  in its words: true iff the pages fetched are fewer than the total, parsed from its text
  and taken as 0 when it is not a number, divided by the page size and rounded up.
\<close>

definition catalogHasNextPage_spec :: "string option \<Rightarrow> nat \<Rightarrow> nat \<Rightarrow> bool" where
  "catalogHasNextPage_spec totalResultsText pageSize pagesFetchedSoFar =
     (let totalResults =
            (case parseInt (case totalResultsText of None \<Rightarrow> ''undefined'' | Some t \<Rightarrow> t) of
               None \<Rightarrow> 0
             | Some v \<Rightarrow> v)
      in int pagesFetchedSoFar < \<lceil>(of_int totalResults :: rat) / of_nat pageSize\<rceil>)"

text \<open>
  What the store keeps true of itself: no id twice in memory, no id twice in the file, no
  empty id in the file.
\<close>

definition storeInvariant :: "store \<Rightarrow> bool" where
  "storeInvariant s =
     (distinct (map imdbID (favorites s))
      \<and> distinct (map imdbID (fileCollection (favoritesFile s)))
      \<and> [] \<notin> set (map imdbID (fileCollection (favoritesFile s))))"

text \<open>The item \<^verbatim>\<open>getMovieByTitle\<close> makes of a provider's item, given the set of favorite ids.\<close>

definition tag :: "string set \<Rightarrow> omdb_movie \<Rightarrow> string tagged_movie" where
  "tag favoritesSet movie =
     \<lparr>title = Title movie, imdbID = imdbID_omdb movie, year = Year movie,
      poster = Poster movie, isFavorite = (imdbID_omdb movie \<in> favoritesSet)\<rparr>"

text \<open>Records to run the operations on.\<close>

definition inception :: MovieDto where
  "inception = \<lparr>title = ''Inception'', imdbID = ''tt1375666'', year = 2010,
                 poster = ''https://x/p.jpg''\<rparr>"

definition matrix :: MovieDto where
  "matrix = \<lparr>title = ''The Matrix'', imdbID = ''tt0133093'', year = 1999, poster = ''N/A''\<rparr>"


definition numbered :: "nat \<Rightarrow> MovieDto" where
  "numbered k = \<lparr>title = ''Movie '' @ toString k, imdbID = ''tt'' @ toString (1000000 + k),
                  year = 2000, poster = ''N/A''\<rparr>"

definition found :: "omdb_movie list" where
  "found =
     [\<lparr>Title = ''Inception'', imdbID_omdb = ''tt1375666'', Year = ''2010'',
       Poster = ''https://x/p.jpg''\<rparr>,
      \<lparr>Title = ''Inception: The Cobol Job'', imdbID_omdb = ''tt5295894'', Year = ''2010'',
       Poster = ''N/A''\<rparr>]"

section \<open>Facts about the host language's functions\<close>

lemma trim_Nil_iff: "trim s = [] \<longleftrightarrow> list_all isWhiteSpace s"
proof
  assume "trim s = []"
  then have "dropWhile isWhiteSpace (rev (dropWhile isWhiteSpace s)) = []"
    by (simp add: trim_def)
  then have d: "\<forall>x\<in>set (dropWhile isWhiteSpace s). isWhiteSpace x"
    by (metis dropWhile_eq_Nil_conv set_rev)
  have "set s = set (takeWhile isWhiteSpace s) \<union> set (dropWhile isWhiteSpace s)"
    by (metis set_append takeWhile_dropWhile_id)
  with d show "list_all isWhiteSpace s"
    by (auto simp: list_all_iff dest: set_takeWhileD)
next
  assume "list_all isWhiteSpace s"
  then have "dropWhile isWhiteSpace s = []"
    by (metis dropWhile_eq_Nil_conv list_all_iff)
  then show "trim s = []" by (simp add: trim_def del: dropWhile_eq_Nil_conv)
qed

lemma parseInt_zero: "parseInt ''0'' = Some 0"
  by (simp add: parseInt_def trimStart_def isWhiteSpace_def hasDigit_def digitValue_def Let_def)

section \<open>The provider's no-results answer\<close>

text \<open>
  C5. When the query is not blank and the page is a positive integer, so that the request
  is made, and the provider answers with the success flag \<^verbatim>\<open>"False"\<close>, then
  \<^verbatim>\<open>searchMovies\<close> returns (it does not throw) no items and the total \<^verbatim>\<open>'0'\<close>, the
  text of the number 0, whatever else the answer holds.
\<close>

theorem searchMovies_no_results_sentinel:
  assumes "\<not> list_all isWhiteSpace q" and "\<not> lessThanOne page" and "isInteger page"
    and "Response d = ''False''"
  shows "\<exists>r. searchMovies q page (Fulfilled d) = Inr r \<and> sp_movies r = [] \<and>
           sp_totalResults r = ''0'' \<and> parseInt (sp_totalResults r) = Some 0"
proof -
  from assms(1) have "trim q \<noteq> []" by (simp add: trim_Nil_iff)
  then have "q \<noteq> []" by (auto simp: trim_def)
  with \<open>trim q \<noteq> []\<close> assms(2-4)
  have "searchMovies q page (Fulfilled d) = Inr \<lparr>sp_movies = [], sp_totalResults = ''0''\<rparr>"
    by (simp add: searchMovies_def)
  then show ?thesis by (simp add: parseInt_zero)
qed

theorem searchMovies_no_results_sentinel_witness:
  "searchMovies ''zzzz'' (Num 1)
     (Fulfilled \<lparr>Search = None, totalResults = None, Response = ''False'',
                 Error = Some ''Movie not found!''\<rparr>)
     = Inr \<lparr>sp_movies = [], sp_totalResults = ''0''\<rparr>"
proof -
  have a: "\<not> list_all isWhiteSpace ''zzzz''" by (simp add: isWhiteSpace_def)
  have b: "\<not> lessThanOne (Num 1)" by simp
  have c: "isInteger (Num 1)" by simp
  have d: "Response \<lparr>Search = None, totalResults = None, Response = ''False'',
                 Error = Some ''Movie not found!''\<rparr> = ''False''" by simp
  from searchMovies_no_results_sentinel [OF a b c d] show ?thesis by auto
qed

section \<open>Facts about the store and the page window\<close>

lemma favorites_reload [simp]:
  "favorites (reloadFavorites l s) = fileCollection (favoritesFile s)"
  by (simp add: reloadFavorites_def loadFavorites_def saveFavorites_def fileCollection_def
      split: backing_file.splits)

lemma fileCollection_reload [simp]:
  "fileCollection (favoritesFile (reloadFavorites l s)) = fileCollection (favoritesFile s)"
  by (simp add: reloadFavorites_def loadFavorites_def saveFavorites_def fileCollection_def
      split: backing_file.splits)

lemma favoritesFile_reload:
  "favoritesFile (reloadFavorites l s) =
     (if favoritesFile s = Absent \<and> l then Stored [] else favoritesFile s)"
  by (simp add: reloadFavorites_def loadFavorites_def saveFavorites_def
      split: backing_file.splits)

lemma valid_number_iff:
  "(\<not> lessThanOne x \<and> isInteger x) \<longleftrightarrow> (\<exists>p::nat. 1 \<le> p \<and> x = Num (of_nat p))"
proof
  assume a: "\<not> lessThanOne x \<and> isInteger x"
  then obtain r where x: "x = Num r" by (cases x) auto
  with a have r: "of_int \<lfloor>r\<rfloor> = r" "1 \<le> r" by auto
  then have f: "1 \<le> \<lfloor>r\<rfloor>" by simp
  then have "(of_nat (nat \<lfloor>r\<rfloor>) :: rat) = of_int \<lfloor>r\<rfloor>"
    by (intro of_nat_nat) simp
  with r(1) have "of_nat (nat \<lfloor>r\<rfloor>) = r" by simp
  moreover from f have "1 \<le> nat \<lfloor>r\<rfloor>" by linarith
  ultimately have "1 \<le> nat \<lfloor>r\<rfloor> \<and> x = Num (of_nat (nat \<lfloor>r\<rfloor>))" using x by simp
  then show "\<exists>p::nat. 1 \<le> p \<and> x = Num (of_nat p)" by (rule exI)
next
  assume "\<exists>p::nat. 1 \<le> p \<and> x = Num (of_nat p)"
  then obtain p :: nat where p: "1 \<le> p" "x = Num (of_nat p)" by blast
  from p(1) have "\<not> (of_nat p :: rat) < 1" by simp
  with p(2) show "\<not> lessThanOne x \<and> isInteger x" by simp
qed

lemma slice_window: "slice xs (int a) (int a + int b) = take b (drop a xs)"
proof (cases "a \<le> length xs")
  case True
  then show ?thesis by (simp add: slice_def Let_def min_def)
next
  case False
  then show ?thesis by (simp add: slice_def Let_def min_def)
qed

lemma toString_0: "toString 0 = ''0''"
  by (simp add: toString.simps digitChar_def)

lemma take_drop_window:
  "take b (drop a xs) = map (nth xs) [a ..< min (a + b) (length xs)]"
proof (rule nth_equalityI)
  show "length (take b (drop a xs)) = length (map (nth xs) [a ..< min (a + b) (length xs)])"
    by (simp add: min_def) arith
next
  fix i assume "i < length (take b (drop a xs))"
  then have i: "i < b" "a + i < length xs" by auto
  then have "take b (drop a xs) ! i = xs ! (a + i)" by simp
  moreover have "map (nth xs) [a ..< min (a + b) (length xs)] ! i = xs ! (a + i)"
    using i by (simp add: min_def)
  ultimately show "take b (drop a xs) ! i = map (nth xs) [a ..< min (a + b) (length xs)] ! i"
    by simp
qed

lemma toInteger_of_nat [simp]: "toInteger (Num (of_nat p)) = int p"
  by simp

lemma window_end: "1 \<le> (p::nat) \<Longrightarrow> (p - 1) * q + q = p * q"
  by (cases p) auto

lemma getFavorites_valid:
  fixes p q :: nat
  assumes "1 \<le> p" and "1 \<le> q"
  shows "getFavorites l (Num (of_nat p)) (Num (of_nat q)) s =
    (Inr \<lparr>fr_favorites = take q (drop ((p - 1) * q) (fileCollection (favoritesFile s))),
          fr_count = length (take q (drop ((p - 1) * q) (fileCollection (favoritesFile s)))),
          fr_totalResults = toString (length (fileCollection (favoritesFile s))),
          fr_currentPage = Num (of_nat p),
          fr_totalPages = \<lceil>(of_nat (length (fileCollection (favoritesFile s))) :: rat) / of_nat q\<rceil>\<rparr>,
     reloadFavorites l s)"
proof -
  have v: "\<not> lessThanOne (Num (of_nat p))" "isInteger (Num (of_nat p))"
    "\<not> lessThanOne (Num (of_nat q))" "isInteger (Num (of_nat q))"
    using assms by auto
  have st: "(toInteger (Num (of_nat p)) - 1) * toInteger (Num (of_nat q)) = int ((p - 1) * q)"
    using assms by (simp add: of_nat_diff)
  show ?thesis
  proof (cases "fileCollection (favoritesFile s) = []")
    case True
    with v show ?thesis
      by (simp add: getFavorites_def toString_0 del: lessThanOne.simps isInteger.simps)
  next
    case False
    with v st show ?thesis
      by (simp add: getFavorites_def Let_def slice_window
          del: lessThanOne.simps isInteger.simps toInteger.simps of_nat_mult)
  qed
qed


lemma getFavorites_invalid:
  assumes "lessThanOne page \<or> \<not> isInteger page \<or> lessThanOne pageSize \<or> \<not> isInteger pageSize"
  shows "\<exists>msg. getFavorites l page pageSize s = (Inl (HttpException msg BAD_REQUEST), s)"
  using assms by (auto simp: getFavorites_def)

lemma ceiling_25_10: "\<lceil>(5 :: rat) / 2\<rceil> = 3"
  by (simp add: ceiling_eq_iff)

section \<open>The page window\<close>

text \<open>
  C2. For a page \<open>p\<close> and a page size \<open>q\<close>, integers from 1 on, \<^verbatim>\<open>getFavorites\<close> returns
  (it does not throw) the records of the file's collection \<open>xs\<close> at the indices from
  \<open>(p - 1) * q\<close> up to, not including, \<open>p * q\<close>, clipped to the length of \<open>xs\<close>; the count
  of these; the length of \<open>xs\<close> as text; the page asked for; and the total pages
  \<open>\<lceil>length xs / q\<rceil>\<close>, which is 0 for the empty collection. A page past the end holds no
  items. With 25 records and \<open>q = 10\<close> there are 3 pages, of 10, 10 and 5 items, and page 4
  is empty. The numbers that pass the check are exactly the integers from 1 on; a page or
  a page size that does not pass is refused with status 400, the state untouched.
\<close>

theorem getFavorites_pagination_window:
  fixes p q :: nat
  assumes "1 \<le> p" and "1 \<le> q" and "fileCollection (favoritesFile s) = xs"
  shows "(\<exists>r. getFavorites l (Num (of_nat p)) (Num (of_nat q)) s = (Inr r, reloadFavorites l s)
            \<and> fr_favorites r = map (nth xs) [(p - 1) * q ..< min (p * q) (length xs)]
            \<and> fr_count r = length (fr_favorites r)
            \<and> fr_totalResults r = toString (length xs)
            \<and> fr_currentPage r = Num (of_nat p)
            \<and> fr_totalPages r = \<lceil>(of_nat (length xs) :: rat) / of_nat q\<rceil>
            \<and> (length xs = 0 \<longrightarrow> fr_totalPages r = 0)
            \<and> (length xs \<le> (p - 1) * q \<longrightarrow> fr_favorites r = [])
            \<and> (length xs = 25 \<and> q = 10 \<longrightarrow>
                  fr_totalPages r = 3
                  \<and> (p = 1 \<or> p = 2 \<longrightarrow> length (fr_favorites r) = 10)
                  \<and> (p = 3 \<longrightarrow> length (fr_favorites r) = 5)
                  \<and> (p = 4 \<longrightarrow> length (fr_favorites r) = 0)))
         \<and> ((\<not> lessThanOne page \<and> isInteger page) = (\<exists>k::nat. 1 \<le> k \<and> page = Num (of_nat k)))
         \<and> (lessThanOne page \<or> \<not> isInteger page \<or> lessThanOne pageSize \<or> \<not> isInteger pageSize
               \<longrightarrow> (\<exists>msg. getFavorites l page pageSize s = (Inl (HttpException msg BAD_REQUEST), s)))"
proof (intro conjI)
  let ?r = "\<lparr>fr_favorites = take q (drop ((p - 1) * q) xs),
          fr_count = length (take q (drop ((p - 1) * q) xs)),
          fr_totalResults = toString (length xs),
          fr_currentPage = Num (of_nat p),
          fr_totalPages = \<lceil>(of_nat (length xs) :: rat) / of_nat q\<rceil>\<rparr>"
  have e: "(p - 1) * q + q = p * q" using assms(1) by (rule window_end)
  have run: "getFavorites l (Num (of_nat p)) (Num (of_nat q)) s = (Inr ?r, reloadFavorites l s)"
    using getFavorites_valid [OF assms(1,2), of l s] assms(3) by simp
  have items: "fr_favorites ?r = map (nth xs) [(p - 1) * q ..< min (p * q) (length xs)]"
    using take_drop_window [of q "(p - 1) * q" xs] e by simp
  have len: "length (fr_favorites ?r) = min q (length xs - (p - 1) * q)"
    by simp
  have ex: "length xs = 25 \<and> q = 10 \<longrightarrow>
                  fr_totalPages ?r = 3
                  \<and> (p = 1 \<or> p = 2 \<longrightarrow> length (fr_favorites ?r) = 10)
                  \<and> (p = 3 \<longrightarrow> length (fr_favorites ?r) = 5)
                  \<and> (p = 4 \<longrightarrow> length (fr_favorites ?r) = 0)"
    unfolding len by (auto simp: ceiling_25_10)
  show "\<exists>r. getFavorites l (Num (of_nat p)) (Num (of_nat q)) s = (Inr r, reloadFavorites l s)
            \<and> fr_favorites r = map (nth xs) [(p - 1) * q ..< min (p * q) (length xs)]
            \<and> fr_count r = length (fr_favorites r)
            \<and> fr_totalResults r = toString (length xs)
            \<and> fr_currentPage r = Num (of_nat p)
            \<and> fr_totalPages r = \<lceil>(of_nat (length xs) :: rat) / of_nat q\<rceil>
            \<and> (length xs = 0 \<longrightarrow> fr_totalPages r = 0)
            \<and> (length xs \<le> (p - 1) * q \<longrightarrow> fr_favorites r = [])
            \<and> (length xs = 25 \<and> q = 10 \<longrightarrow>
                  fr_totalPages r = 3
                  \<and> (p = 1 \<or> p = 2 \<longrightarrow> length (fr_favorites r) = 10)
                  \<and> (p = 3 \<longrightarrow> length (fr_favorites r) = 5)
                  \<and> (p = 4 \<longrightarrow> length (fr_favorites r) = 0))"
  proof (intro exI [of _ ?r] conjI)
    show "getFavorites l (Num (of_nat p)) (Num (of_nat q)) s = (Inr ?r, reloadFavorites l s)"
      by (rule run)
    show "fr_favorites ?r = map (nth xs) [(p - 1) * q ..< min (p * q) (length xs)]"
      by (rule items)
    show "length xs = 25 \<and> q = 10 \<longrightarrow>
                  fr_totalPages ?r = 3
                  \<and> (p = 1 \<or> p = 2 \<longrightarrow> length (fr_favorites ?r) = 10)
                  \<and> (p = 3 \<longrightarrow> length (fr_favorites ?r) = 5)
                  \<and> (p = 4 \<longrightarrow> length (fr_favorites ?r) = 0)"
      by (rule ex)
  qed simp_all
next
  show "(\<not> lessThanOne page \<and> isInteger page) = (\<exists>k::nat. 1 \<le> k \<and> page = Num (of_nat k))"
    by (rule valid_number_iff)
next
  show "lessThanOne page \<or> \<not> isInteger page \<or> lessThanOne pageSize \<or> \<not> isInteger pageSize
               \<longrightarrow> (\<exists>msg. getFavorites l page pageSize s = (Inl (HttpException msg BAD_REQUEST), s))"
    using getFavorites_invalid by blast
qed


theorem getFavorites_pagination_window_witness:
  "length (fr_favorites (projr (fst (getFavorites True (Num 3) (Num 10)
       \<lparr>favorites = [], favoritesFile = Stored (map numbered [0..<25])\<rparr>)))) = 5
   \<and> fr_totalPages (projr (fst (getFavorites True (Num 3) (Num 10)
       \<lparr>favorites = [], favoritesFile = Stored (map numbered [0..<25])\<rparr>))) = 3
   \<and> (\<exists>msg. getFavorites True (Num (1 / 2)) (Num 10)
               \<lparr>favorites = [], favoritesFile = Stored (map numbered [0..<25])\<rparr>
          = (Inl (HttpException msg BAD_REQUEST),
             \<lparr>favorites = [], favoritesFile = Stored (map numbered [0..<25])\<rparr>))"
proof -
  let ?s = "\<lparr>favorites = [], favoritesFile = Stored (map numbered [0..<25])\<rparr>"
  have a: "1 \<le> (3::nat)" and b: "1 \<le> (10::nat)" by simp_all
  have c: "fileCollection (favoritesFile ?s) = map numbered [0..<25]"
    by (simp add: fileCollection_def)
  have n: "length (map numbered [0..<25]) = 25" by simp
  have bad: "lessThanOne (Num (1 / 2))" by simp
  from getFavorites_pagination_window [OF a b c, of True "Num (1 / 2)" "Num 10"] n bad
  show ?thesis by (auto simp del: upt_rec_numeral)
qed

section \<open>The empty collection\<close>

lemma fileCollection_onModuleInit [simp]:
  "fileCollection (favoritesFile (onModuleInit w f)) = fileCollection f"
  by (simp add: onModuleInit_def loadFavorites_def saveFavorites_def fileCollection_def
      split: backing_file.splits)

lemma onModuleInit_Absent:
  "onModuleInit w Absent = \<lparr>favorites = [], favoritesFile = (if w then Stored [] else Absent)\<rparr>"
  by (simp add: onModuleInit_def loadFavorites_def saveFavorites_def)

lemma getFavorites_empty:
  assumes "\<not> lessThanOne page" and "isInteger page"
    and "\<not> lessThanOne pageSize" and "isInteger pageSize"
    and "fileCollection (favoritesFile s) = []"
  shows "getFavorites l page pageSize s =
           (Inr \<lparr>fr_favorites = [], fr_count = 0, fr_totalResults = ''0'',
                 fr_currentPage = page, fr_totalPages = 0\<rparr>, reloadFavorites l s)"
  using assms by (simp add: getFavorites_def)

text \<open>
  C3, as the code has it. On a store whose file holds no record (it is missing, or cannot
  be read, or holds the empty collection), and so on the store as initialised with no
  file, \<^verbatim>\<open>getFavorites\<close> with a valid page and page size returns (it does not throw) no
  favorites, the count 0, the total \<^verbatim>\<open>"0"\<close>, 0 total pages, and as current page the
  page that was asked for: 1 when page 1 was asked for.
\<close>

theorem getFavorites_empty_store:
  assumes "\<not> lessThanOne page" and "isInteger page"
    and "\<not> lessThanOne pageSize" and "isInteger pageSize"
    and "fileCollection (favoritesFile s) = []"
  shows "getFavorites l page pageSize s =
           (Inr \<lparr>fr_favorites = [], fr_count = 0, fr_totalResults = ''0'',
                 fr_currentPage = page, fr_totalPages = 0\<rparr>, reloadFavorites l s)
         \<and> getFavorites l page pageSize (onModuleInit w Absent) =
           (Inr \<lparr>fr_favorites = [], fr_count = 0, fr_totalResults = ''0'',
                 fr_currentPage = page, fr_totalPages = 0\<rparr>,
            \<lparr>favorites = [], favoritesFile = (if w \<or> l then Stored [] else Absent)\<rparr>)
         \<and> getFavorites l (Num 1) pageSize s =
           (Inr \<lparr>fr_favorites = [], fr_count = 0, fr_totalResults = ''0'',
                 fr_currentPage = Num 1, fr_totalPages = 0\<rparr>, reloadFavorites l s)"
proof (intro conjI)
  show "getFavorites l page pageSize s =
           (Inr \<lparr>fr_favorites = [], fr_count = 0, fr_totalResults = ''0'',
                 fr_currentPage = page, fr_totalPages = 0\<rparr>, reloadFavorites l s)"
    using assms by (rule getFavorites_empty)
next
  have "fileCollection Absent = []"
    by (simp add: fileCollection_def)
  then have "fileCollection (favoritesFile (onModuleInit w Absent)) = []"
    by simp
  from getFavorites_empty [OF assms(1-4) this, of l]
  show "getFavorites l page pageSize (onModuleInit w Absent) =
           (Inr \<lparr>fr_favorites = [], fr_count = 0, fr_totalResults = ''0'',
                 fr_currentPage = page, fr_totalPages = 0\<rparr>,
            \<lparr>favorites = [], favoritesFile = (if w \<or> l then Stored [] else Absent)\<rparr>)"
    by (simp add: onModuleInit_Absent reloadFavorites_def loadFavorites_def saveFavorites_def)
next
  have "\<not> lessThanOne (Num 1)" and "isInteger (Num 1)" by simp_all
  then show "getFavorites l (Num 1) pageSize s =
           (Inr \<lparr>fr_favorites = [], fr_count = 0, fr_totalResults = ''0'',
                 fr_currentPage = Num 1, fr_totalPages = 0\<rparr>, reloadFavorites l s)"
    using assms(3-5) by (rule getFavorites_empty)
qed

theorem getFavorites_empty_store_witness:
  "getFavorites True (Num 1) (Num 10) (onModuleInit True Absent) =
     (Inr \<lparr>fr_favorites = [], fr_count = 0, fr_totalResults = ''0'',
           fr_currentPage = Num 1, fr_totalPages = 0\<rparr>,
      \<lparr>favorites = [], favoritesFile = Stored []\<rparr>)"
proof -
  have a: "\<not> lessThanOne (Num 1)" and b: "isInteger (Num 1)" by simp_all
  have c: "\<not> lessThanOne (Num 10)" and d: "isInteger (Num 10)" by simp_all
  have e: "fileCollection (favoritesFile \<lparr>favorites = [], favoritesFile = Absent\<rparr>) = []"
    by (simp add: fileCollection_def)
  from getFavorites_empty_store [OF a b c d e, of True True]
  show ?thesis by simp
qed

text \<open>
  The claim as stated has the current page 1 for every page: asked for page 2, the freshly
  initialised store answers with current page 2.
\<close>

theorem getFavorites_empty_store_counterexample:
  "fst (getFavorites True (Num 2) (Num 10) (onModuleInit True Absent)) =
     Inr \<lparr>fr_favorites = [], fr_count = 0, fr_totalResults = ''0'',
          fr_currentPage = Num 2, fr_totalPages = 0\<rparr>
   \<and> Num 2 \<noteq> Num 1"
  by (simp add: getFavorites_def onModuleInit_Absent fileCollection_def)

section \<open>The next page, with pages of ten\<close>

lemmas parseInt_simps =
  parseInt_def trimStart_def isWhiteSpace_def hasDigit_def digitValue_def Let_def

lemma getNextPageParam_eq:
  "getNextPageParam t n = (if catalogHasNextPage_spec t 10 n then Some (n + 1) else None)"
  by (cases "parseInt (case t of None \<Rightarrow> ''undefined'' | Some x \<Rightarrow> x)")
     (simp_all add: getNextPageParam_def catalogHasNextPage_spec_def)

lemma parseInt_undefined: "parseInt ''undefined'' = None"
  by (simp add: parseInt_simps)

text \<open>
  C6, as the code has it. The page size is not an argument: it is the constant 10 of the
  provider's pages. \<^verbatim>\<open>getNextPageParam\<close> answers with the next page number, one more than
  the pages fetched, exactly when the pages fetched are fewer than the parsed total
  divided by 10 and rounded up, a total that is not a number or is missing counting as 0;
  then there is no next page and nothing is thrown.
\<close>

theorem getNextPageParam_page_size_ten:
  "getNextPageParam t n = (if catalogHasNextPage_spec t 10 n then Some (n + 1) else None)
   \<and> ((getNextPageParam t n \<noteq> None) = catalogHasNextPage_spec t 10 n)
   \<and> ((getNextPageParam t n \<noteq> None) =
        (int n < \<lceil>(of_int (case parseInt (case t of None \<Rightarrow> ''undefined'' | Some x \<Rightarrow> x) of
                             None \<Rightarrow> 0
                           | Some v \<Rightarrow> v) :: rat) / 10\<rceil>))
   \<and> (parseInt (case t of None \<Rightarrow> ''undefined'' | Some x \<Rightarrow> x) = None
        \<longrightarrow> getNextPageParam t n = None)
   \<and> getNextPageParam None n = None"
proof (intro conjI impI)
  show "getNextPageParam t n = (if catalogHasNextPage_spec t 10 n then Some (n + 1) else None)"
    by (rule getNextPageParam_eq)
  then show "(getNextPageParam t n \<noteq> None) = catalogHasNextPage_spec t 10 n"
    by simp
  show "(getNextPageParam t n \<noteq> None) =
        (int n < \<lceil>(of_int (case parseInt (case t of None \<Rightarrow> ''undefined'' | Some x \<Rightarrow> x) of
                             None \<Rightarrow> 0
                           | Some v \<Rightarrow> v) :: rat) / 10\<rceil>)"
    by (simp add: getNextPageParam_eq catalogHasNextPage_spec_def)
  show "getNextPageParam t n = None"
    if "parseInt (case t of None \<Rightarrow> ''undefined'' | Some x \<Rightarrow> x) = None"
    using that by (simp add: getNextPageParam_def)
  show "getNextPageParam None n = None"
    by (simp add: getNextPageParam_def parseInt_undefined)
qed

theorem getNextPageParam_page_size_ten_witness:
  "getNextPageParam (Some ''25'') 2 = Some 3
   \<and> getNextPageParam (Some ''25'') 3 = None
   \<and> getNextPageParam (Some ''n/a'') 0 = None"
proof -
  have a: "catalogHasNextPage_spec (Some ''25'') 10 2"
    by (simp add: catalogHasNextPage_spec_def parseInt_simps less_ceiling_iff)
  have b: "\<not> catalogHasNextPage_spec (Some ''25'') 10 3"
    by (simp add: catalogHasNextPage_spec_def parseInt_simps less_ceiling_iff)
  have c: "parseInt (case Some ''n/a'' of None \<Rightarrow> ''undefined'' | Some x \<Rightarrow> x) = None"
    by (simp add: parseInt_simps)
  from getNextPageParam_page_size_ten [of "Some ''25''" 2] a
  have 1: "getNextPageParam (Some ''25'') 2 = Some 3" by simp
  from getNextPageParam_page_size_ten [of "Some ''25''" 3] b
  have 2: "getNextPageParam (Some ''25'') 3 = None" by simp
  from getNextPageParam_page_size_ten [of "Some ''n/a''" 0] c
  have 3: "getNextPageParam (Some ''n/a'') 0 = None" by blast
  from 1 2 3 show ?thesis by simp
qed

text \<open>
  The claim as stated is for every page size: with the total \<^verbatim>\<open>"10"\<close>, one page fetched
  and pages of 5, there would be a next page; the code, dividing by 10, has none.
\<close>

theorem getNextPageParam_counterexample:
  "getNextPageParam (Some ''10'') 1 = None \<and> catalogHasNextPage_spec (Some ''10'') 5 1"
  by (simp add: getNextPageParam_def catalogHasNextPage_spec_def parseInt_simps less_ceiling_iff)

section \<open>Facts about the mutations\<close>

lemma findIndexFrom_bound: "list_ex P xs \<Longrightarrow> k \<le> findIndexFrom P xs k"
proof (induction xs arbitrary: k)
  case Nil
  then show ?case by simp
next
  case (Cons x xs)
  show ?case
  proof (cases "P x")
    case True
    then show ?thesis by simp
  next
    case False
    with Cons.prems have "list_ex P xs" by simp
    then have "k + 1 \<le> findIndexFrom P xs (k + 1)" by (rule Cons.IH)
    with False show ?thesis by simp
  qed
qed

lemma findIndexFrom_none: "\<not> list_ex P xs \<Longrightarrow> findIndexFrom P xs k = - 1"
  by (induction xs arbitrary: k) auto

lemma findIndex_none_iff: "(findIndex P xs = - 1) = (\<not> list_ex P xs)"
proof (cases "list_ex P xs")
  case True
  then have "0 \<le> findIndexFrom P xs 0" by (rule findIndexFrom_bound)
  with True show ?thesis by (simp add: findIndex_def)
next
  case False
  then show ?thesis by (simp add: findIndex_def findIndexFrom_none)
qed

lemma findIndexFrom_first:
  "\<forall>x\<in>set pre. \<not> P x \<Longrightarrow> P r \<Longrightarrow>
     findIndexFrom P (pre @ r # post) k = k + int (length pre)"
  by (induction pre arbitrary: k) auto

lemma findIndex_first:
  "\<forall>x\<in>set pre. \<not> P x \<Longrightarrow> P r \<Longrightarrow> findIndex P (pre @ r # post) = int (length pre)"
  by (simp add: findIndex_def findIndexFrom_first)

lemma splice_one: "spliceArray (pre @ r # post) (int (length pre)) 1 = pre @ post"
proof -
  have "nat (int (length pre) + 1) = Suc (length pre)" by simp
  then show ?thesis by (simp add: spliceArray_def Let_def)
qed

lemma blank_iff: "(movieId = [] \<or> length (trim movieId) = 0) = list_all isWhiteSpace movieId"
  by (auto simp: trim_Nil_iff)

lemma reloadFavorites_eq:
  "reloadFavorites l s =
     s\<lparr>favorites := fileCollection (favoritesFile s),
       favoritesFile := (if favoritesFile s = Absent \<and> l then Stored [] else favoritesFile s)\<rparr>"
  by (simp add: reloadFavorites_def loadFavorites_def saveFavorites_def fileCollection_def
      split: backing_file.splits)

lemma ids_ex: "list_ex (\<lambda>movie. imdbID movie = i) xs = (i \<in> set (map imdbID xs))"
  by (auto simp: list_ex_iff)

lemma removeFromFavorites_blank:
  "list_all isWhiteSpace movieId \<Longrightarrow>
     removeFromFavorites l w movieId s =
       (Inl (HttpException ''Movie ID is required'' BAD_REQUEST), s)"
  using blank_iff [of movieId] by (simp add: removeFromFavorites_def)

lemma removeFromFavorites_absent:
  assumes "\<not> list_all isWhiteSpace movieId"
    and "movieId \<notin> set (map imdbID (fileCollection (favoritesFile s)))"
  shows "removeFromFavorites l w movieId s =
       (Inl (HttpException ''Movie not found in favorites'' NOT_FOUND), reloadFavorites l s)"
proof -
  from assms(1) have nb: "\<not> (movieId = [] \<or> length (trim movieId) = 0)"
    using blank_iff [of movieId] by blast
  from assms(2)
  have "findIndex (\<lambda>movie. imdbID movie = movieId) (fileCollection (favoritesFile s)) = - 1"
    by (simp add: findIndex_none_iff ids_ex)
  with nb show ?thesis
    by (simp add: removeFromFavorites_def Let_def)
qed

lemma removeFromFavorites_present:
  assumes "\<not> list_all isWhiteSpace movieId"
    and "fileCollection (favoritesFile s) = pre @ r # post"
    and "imdbID r = movieId" and "movieId \<notin> set (map imdbID pre)"
  shows "removeFromFavorites l w movieId s =
       (if w then (Inr ''Movie removed from favorites'',
                   s\<lparr>favorites := pre @ post, favoritesFile := Stored (pre @ post)\<rparr>)
        else (Inl (HttpException ''Failed to save favorites'' INTERNAL_SERVER_ERROR),
              s\<lparr>favorites := pre @ post\<rparr>))"
proof -
  from assms(1) have nb: "\<not> (movieId = [] \<or> length (trim movieId) = 0)"
    using blank_iff [of movieId] by blast
  from assms(4) have "\<forall>x\<in>set pre. \<not> imdbID x = movieId" by auto
  with assms(3)
  have ix: "findIndex (\<lambda>movie. imdbID movie = movieId) (pre @ r # post) = int (length pre)"
    by (intro findIndex_first) simp_all
  from assms(2) have st: "favoritesFile s \<noteq> Absent"
    by (auto simp: fileCollection_def)
  from nb ix st assms(2) show ?thesis
    by (simp add: removeFromFavorites_def Let_def splice_one saveFavorites_def
        reloadFavorites_eq)
qed

lemma addToFavorites_invalid:
  "movieToAdd = None \<or> imdbID (the movieToAdd) = [] \<Longrightarrow>
     addToFavorites l w movieToAdd s = (Inl (HttpException ''Invalid movie data'' BAD_REQUEST), s)"
  by (cases movieToAdd) (auto simp: addToFavorites_def)

lemma addToFavorites_present:
  assumes "imdbID m \<noteq> []"
    and "imdbID m \<in> set (map imdbID (fileCollection (favoritesFile s)))"
  shows "addToFavorites l w (Some m) s =
       (Inl (HttpException ''Movie already in favorites'' BAD_REQUEST),
        s\<lparr>favorites := fileCollection (favoritesFile s)\<rparr>)"
proof -
  from assms(2) have st: "favoritesFile s \<noteq> Absent"
    by (auto simp: fileCollection_def)
  from assms(2)
  have "list_ex (\<lambda>movie. imdbID movie = imdbID m) (fileCollection (favoritesFile s))"
    by (simp add: ids_ex)
  with assms(1) st show ?thesis
    by (simp add: addToFavorites_def Let_def some_def reloadFavorites_eq)
qed

lemma addToFavorites_absent:
  assumes "imdbID m \<noteq> []"
    and "imdbID m \<notin> set (map imdbID (fileCollection (favoritesFile s)))"
  shows "addToFavorites l w (Some m) s =
       (if w then (Inr ''Movie added to favorites'',
                   s\<lparr>favorites := fileCollection (favoritesFile s) @ [m],
                     favoritesFile := Stored (fileCollection (favoritesFile s) @ [m])\<rparr>)
        else (Inl (HttpException ''Failed to save favorites'' INTERNAL_SERVER_ERROR),
              (reloadFavorites l s)\<lparr>favorites := fileCollection (favoritesFile s) @ [m]\<rparr>))"
proof -
  from assms(2)
  have "\<not> list_ex (\<lambda>movie. imdbID movie = imdbID m) (fileCollection (favoritesFile s))"
    by (simp add: ids_ex)
  with assms(1) show ?thesis
    by (simp add: addToFavorites_def Let_def some_def saveFavorites_def reloadFavorites_eq)
qed

lemma single_match_split:
  assumes "length (filter P xs) = 1"
  shows "\<exists>pre r post. xs = pre @ r # post \<and> P r \<and> (\<forall>x\<in>set pre. \<not> P x) \<and> (\<forall>x\<in>set post. \<not> P x)"
proof -
  from assms have "filter P xs \<noteq> []" by auto
  then have "\<exists>x\<in>set xs. P x" by (simp add: filter_empty_conv)
  from split_list_first_prop [OF this]
  obtain pre r post where sp: "xs = pre @ r # post" "P r" "\<forall>x\<in>set pre. \<not> P x"
    by blast
  from sp have "filter P xs = r # filter P post" by simp
  with assms have "filter P post = []" by simp
  then have "\<forall>x\<in>set post. \<not> P x" by (simp add: filter_empty_conv)
  with sp show ?thesis by blast
qed

lemma first_match_split:
  assumes "i \<in> set (map imdbID xs)"
  shows "\<exists>pre r post. xs = pre @ r # post \<and> imdbID r = i \<and> i \<notin> set (map imdbID pre)"
proof -
  from assms have "\<exists>x\<in>set xs. imdbID x = i" by auto
  from split_list_first_prop [OF this]
  obtain pre r post where "xs = pre @ r # post" "imdbID r = i" "\<forall>x\<in>set pre. imdbID x \<noteq> i"
    by blast
  then have "xs = pre @ r # post \<and> imdbID r = i \<and> i \<notin> set (map imdbID pre)" by auto
  then show ?thesis by blast
qed

lemma removeFromFavorites_notFound_iff:
  assumes "\<not> list_all isWhiteSpace movieId"
  shows "(fst (removeFromFavorites l w movieId s) =
            Inl (HttpException ''Movie not found in favorites'' NOT_FOUND))
         = (movieId \<notin> set (map imdbID (fileCollection (favoritesFile s))))"
proof (cases "movieId \<in> set (map imdbID (fileCollection (favoritesFile s)))")
  case True
  then obtain pre r post where "fileCollection (favoritesFile s) = pre @ r # post"
    "imdbID r = movieId" "movieId \<notin> set (map imdbID pre)"
    using first_match_split by blast
  with assms have "removeFromFavorites l w movieId s =
       (if w then (Inr ''Movie removed from favorites'',
                   s\<lparr>favorites := pre @ post, favoritesFile := Stored (pre @ post)\<rparr>)
        else (Inl (HttpException ''Failed to save favorites'' INTERNAL_SERVER_ERROR),
              s\<lparr>favorites := pre @ post\<rparr>))"
    by (rule removeFromFavorites_present)
  with True show ?thesis by simp
next
  case False
  with assms have "removeFromFavorites l w movieId s =
       (Inl (HttpException ''Movie not found in favorites'' NOT_FOUND), reloadFavorites l s)"
    by (rule removeFromFavorites_absent)
  with False show ?thesis by simp
qed

lemma removeFromFavorites_twice:
  assumes "\<not> list_all isWhiteSpace movieId"
    and "length (filter (\<lambda>m. imdbID m = movieId) (fileCollection (favoritesFile s))) = 1"
  shows "fst (removeFromFavorites l True movieId s) = Inr ''Movie removed from favorites''
    \<and> fst (removeFromFavorites l' w' movieId (snd (removeFromFavorites l True movieId s)))
        = Inl (HttpException ''Movie not found in favorites'' NOT_FOUND)"
proof -
  from single_match_split [OF assms(2)]
  obtain pre r post where sp: "fileCollection (favoritesFile s) = pre @ r # post"
    "imdbID r = movieId" "\<forall>x\<in>set pre. imdbID x \<noteq> movieId" "\<forall>x\<in>set post. imdbID x \<noteq> movieId"
    by blast
  from sp(3) have np: "movieId \<notin> set (map imdbID pre)" by auto
  let ?s1 = "s\<lparr>favorites := pre @ post, favoritesFile := Stored (pre @ post)\<rparr>"
  from removeFromFavorites_present [OF assms(1) sp(1,2) np, of l True]
  have first: "removeFromFavorites l True movieId s = (Inr ''Movie removed from favorites'', ?s1)"
    by simp
  from sp(3,4) have "movieId \<notin> set (map imdbID (fileCollection (favoritesFile ?s1)))"
    by (auto simp: fileCollection_def)
  with assms(1)
  have "removeFromFavorites l' w' movieId ?s1 =
       (Inl (HttpException ''Movie not found in favorites'' NOT_FOUND), reloadFavorites l' ?s1)"
    by (rule removeFromFavorites_absent)
  with first show ?thesis by simp
qed

section \<open>Removing: what is refused\<close>

text \<open>
  C4. \<^verbatim>\<open>removeFromFavorites\<close> refuses an id that is empty or all white space with status
  400 (``Movie ID is required''), the state untouched. For any other id it throws status
  404 (``Movie not found in favorites'') exactly when the file's collection, reloaded,
  has no record with that id. So when the collection has the id once and the write
  succeeds, the first removal returns its success message and a second removal of the same
  id, whatever its writes do, throws the 404.
\<close>

theorem removeFromFavorites_error_semantics:
  "(list_all isWhiteSpace movieId \<longrightarrow>
      removeFromFavorites l w movieId s =
        (Inl (HttpException ''Movie ID is required'' BAD_REQUEST), s))
   \<and> (\<not> list_all isWhiteSpace movieId \<longrightarrow>
        (fst (removeFromFavorites l w movieId s) =
           Inl (HttpException ''Movie not found in favorites'' NOT_FOUND))
        = (movieId \<notin> set (map imdbID (fileCollection (favoritesFile s)))))
   \<and> (\<not> list_all isWhiteSpace movieId
        \<and> length (filter (\<lambda>m. imdbID m = movieId) (fileCollection (favoritesFile s))) = 1 \<longrightarrow>
        fst (removeFromFavorites l True movieId s) = Inr ''Movie removed from favorites''
        \<and> fst (removeFromFavorites l' w' movieId (snd (removeFromFavorites l True movieId s)))
            = Inl (HttpException ''Movie not found in favorites'' NOT_FOUND))"
proof (intro conjI impI)
  show "removeFromFavorites l w movieId s =
        (Inl (HttpException ''Movie ID is required'' BAD_REQUEST), s)"
    if "list_all isWhiteSpace movieId"
    using that by (rule removeFromFavorites_blank)
  show "(fst (removeFromFavorites l w movieId s) =
           Inl (HttpException ''Movie not found in favorites'' NOT_FOUND))
        = (movieId \<notin> set (map imdbID (fileCollection (favoritesFile s))))"
    if "\<not> list_all isWhiteSpace movieId"
    using that by (rule removeFromFavorites_notFound_iff)
  assume both: "\<not> list_all isWhiteSpace movieId
        \<and> length (filter (\<lambda>m. imdbID m = movieId) (fileCollection (favoritesFile s))) = 1"
  then have t: "fst (removeFromFavorites l True movieId s) = Inr ''Movie removed from favorites''
    \<and> fst (removeFromFavorites l' w' movieId (snd (removeFromFavorites l True movieId s)))
        = Inl (HttpException ''Movie not found in favorites'' NOT_FOUND)"
    by (intro removeFromFavorites_twice) simp_all
  from t show "fst (removeFromFavorites l True movieId s) = Inr ''Movie removed from favorites''"
    by (rule conjunct1)
  from t show "fst (removeFromFavorites l' w' movieId (snd (removeFromFavorites l True movieId s)))
        = Inl (HttpException ''Movie not found in favorites'' NOT_FOUND)"
    by (rule conjunct2)
qed

lemma blank_examples:
  "list_all isWhiteSpace [CHR '' '', CHR 0x09, CHR '' '']"
  "\<not> list_all isWhiteSpace ''tt1375666''"
  by (simp_all add: isWhiteSpace_def)

theorem removeFromFavorites_error_semantics_witness:
  "removeFromFavorites True True [CHR '' '', CHR 0x09, CHR '' '']
       \<lparr>favorites = [], favoritesFile = Stored [matrix, inception]\<rparr>
     = (Inl (HttpException ''Movie ID is required'' BAD_REQUEST),
        \<lparr>favorites = [], favoritesFile = Stored [matrix, inception]\<rparr>)
   \<and> fst (removeFromFavorites True True ''tt1375666''
       \<lparr>favorites = [], favoritesFile = Stored [matrix, inception]\<rparr>)
     = Inr ''Movie removed from favorites''
   \<and> fst (removeFromFavorites True True ''tt1375666''
        (snd (removeFromFavorites True True ''tt1375666''
           \<lparr>favorites = [], favoritesFile = Stored [matrix, inception]\<rparr>)))
     = Inl (HttpException ''Movie not found in favorites'' NOT_FOUND)"
proof -
  let ?s = "\<lparr>favorites = [], favoritesFile = Stored [matrix, inception]\<rparr>"
  have once: "length (filter (\<lambda>m. imdbID m = ''tt1375666'') (fileCollection (favoritesFile ?s))) = 1"
    by (simp add: fileCollection_def matrix_def inception_def)
  from removeFromFavorites_error_semantics
         [where movieId = "[CHR '' '', CHR 0x09, CHR '' '']" and l = True and w = True and s = ?s]
    blank_examples(1)
  have 1: "removeFromFavorites True True [CHR '' '', CHR 0x09, CHR '' ''] ?s
     = (Inl (HttpException ''Movie ID is required'' BAD_REQUEST), ?s)"
    by blast
  from removeFromFavorites_error_semantics
         [where movieId = "''tt1375666''" and l = True and s = ?s and l' = True and w' = True]
    blank_examples(2) once
  have 2: "fst (removeFromFavorites True True ''tt1375666'' ?s) = Inr ''Movie removed from favorites''
        \<and> fst (removeFromFavorites True True ''tt1375666''
                  (snd (removeFromFavorites True True ''tt1375666'' ?s)))
            = Inl (HttpException ''Movie not found in favorites'' NOT_FOUND)"
    by blast
  from 1 2 show ?thesis by blast
qed

section \<open>The frame of the mutations\<close>




section \<open>Uniqueness of the ids\<close>

lemma fileCollection_simps [simp]:
  "fileCollection (Stored xs) = xs"
  "fileCollection (Unparseable t) = []"
  "fileCollection Absent = []"
  by (simp_all add: fileCollection_def)

lemma storeInvariant_reload:
  assumes "storeInvariant s"
  shows "storeInvariant (reloadFavorites l s)"
  using assms by (simp add: storeInvariant_def)

lemma snd_getFavorites:
  "snd (getFavorites l page pageSize s) = s \<or> snd (getFavorites l page pageSize s) = reloadFavorites l s"
  by (simp add: getFavorites_def Let_def)

lemma storeInvariant_getFavorites:
  assumes "storeInvariant s"
  shows "storeInvariant (snd (getFavorites l page pageSize s))"
  using snd_getFavorites [of l page pageSize s] assms storeInvariant_reload [OF assms, of l]
  by auto

lemma storeInvariant_add:
  assumes "storeInvariant s"
  shows "storeInvariant (snd (addToFavorites l w movieToAdd s))"
proof (cases "movieToAdd = None \<or> imdbID (the movieToAdd) = []")
  case True
  then show ?thesis using assms by (simp add: addToFavorites_invalid)
next
  case False
  then obtain m where m: "movieToAdd = Some m" "imdbID m \<noteq> []" by auto
  show ?thesis
  proof (cases "imdbID m \<in> set (map imdbID (fileCollection (favoritesFile s)))")
    case True
    with m assms show ?thesis
      by (simp add: addToFavorites_present storeInvariant_def)
  next
    case False
    with m assms show ?thesis
      by (auto simp: addToFavorites_absent storeInvariant_def)
  qed
qed

lemma storeInvariant_remove:
  assumes "storeInvariant s"
  shows "storeInvariant (snd (removeFromFavorites l w movieId s))"
proof (cases "list_all isWhiteSpace movieId")
  case True
  then show ?thesis using assms by (simp add: removeFromFavorites_blank)
next
  case nb: False
  show ?thesis
  proof (cases "movieId \<in> set (map imdbID (fileCollection (favoritesFile s)))")
    case True
    then obtain pre r post where sp: "fileCollection (favoritesFile s) = pre @ r # post"
      "imdbID r = movieId" "movieId \<notin> set (map imdbID pre)"
      using first_match_split by blast
    from assms sp(1) have "distinct (map imdbID (pre @ post))" "[] \<notin> set (map imdbID (pre @ post))"
      by (auto simp: storeInvariant_def)
    with assms show ?thesis
      by (auto simp: removeFromFavorites_present [OF nb sp] storeInvariant_def)
  next
    case False
    with nb assms show ?thesis
      by (simp add: removeFromFavorites_absent storeInvariant_reload)
  qed
qed

lemma storeInvariant_perform:
  "storeInvariant s \<Longrightarrow> storeInvariant (perform c s)"
  by (cases c) (simp_all add: storeInvariant_add storeInvariant_remove storeInvariant_getFavorites)

lemma storeInvariant_run:
  "storeInvariant s \<Longrightarrow> storeInvariant (run cs s)"
  by (induction cs arbitrary: s) (simp_all add: storeInvariant_perform)

lemma storeInvariant_onModuleInit:
  assumes "distinct (map imdbID (fileCollection f))" and "[] \<notin> set (map imdbID (fileCollection f))"
  shows "storeInvariant (onModuleInit w f)"
proof -
  have "favorites (onModuleInit w f) = fileCollection f"
    by (simp add: onModuleInit_def loadFavorites_def saveFavorites_def fileCollection_def
        split: backing_file.splits)
  with assms show ?thesis by (simp add: storeInvariant_def)
qed

text \<open>
  C1. Start the service on a file that is missing, or cannot be read, or holds a
  collection with no id twice and no empty id (what the store itself writes), and run any
  sequence of calls of add, remove and list, whatever their arguments and whether their
  writes succeed. In the state reached no id is twice in the collection in memory and
  none is twice in the file. If the file then has a record with the id of \<open>m\<close>, adding
  \<open>m\<close> throws status 400 (``Movie already in favorites''), the file is as it was and the
  memory holds the file's collection.
\<close>

theorem favorites_uniqueness:
  assumes "distinct (map imdbID (fileCollection f))"
    and "[] \<notin> set (map imdbID (fileCollection f))"
    and "s = run calls (onModuleInit w f)"
  shows "distinct (map imdbID (favorites s))
         \<and> distinct (map imdbID (fileCollection (favoritesFile s)))
         \<and> (imdbID m \<in> set (map imdbID (fileCollection (favoritesFile s))) \<longrightarrow>
              addToFavorites l v (Some m) s =
                (Inl (HttpException ''Movie already in favorites'' BAD_REQUEST),
                 s\<lparr>favorites := fileCollection (favoritesFile s)\<rparr>))"
proof -
  from assms(1,2) have "storeInvariant (onModuleInit w f)"
    by (rule storeInvariant_onModuleInit)
  then have "storeInvariant (run calls (onModuleInit w f))"
    by (rule storeInvariant_run)
  with assms(3) have inv: "storeInvariant s" by simp
  have "addToFavorites l v (Some m) s =
                (Inl (HttpException ''Movie already in favorites'' BAD_REQUEST),
                 s\<lparr>favorites := fileCollection (favoritesFile s)\<rparr>)"
    if present: "imdbID m \<in> set (map imdbID (fileCollection (favoritesFile s)))"
  proof -
    from inv present have "imdbID m \<noteq> []" by (auto simp: storeInvariant_def)
    then show ?thesis using present by (rule addToFavorites_present)
  qed
  with inv show ?thesis by (simp add: storeInvariant_def)
qed

lemma example_run:
  "run [Add True True (Some inception), Add True False (Some matrix),
        Add True True (Some inception), Remove True True ''tt0133093'',
        Add False True (Some matrix)] (onModuleInit True Absent)
     = \<lparr>favorites = [inception, matrix], favoritesFile = Stored [inception, matrix]\<rparr>"
  by (simp add: onModuleInit_Absent addToFavorites_def removeFromFavorites_def
      reloadFavorites_def loadFavorites_def saveFavorites_def some_def findIndex_def
      spliceArray_def trim_def isWhiteSpace_def inception_def matrix_def Let_def)

theorem favorites_uniqueness_witness:
  "distinct (map imdbID [inception, matrix])
   \<and> addToFavorites True True (Some inception)
        \<lparr>favorites = [inception, matrix], favoritesFile = Stored [inception, matrix]\<rparr>
     = (Inl (HttpException ''Movie already in favorites'' BAD_REQUEST),
        \<lparr>favorites = [inception, matrix], favoritesFile = Stored [inception, matrix]\<rparr>)"
proof -
  let ?s = "\<lparr>favorites = [inception, matrix], favoritesFile = Stored [inception, matrix]\<rparr>"
  have a: "distinct (map imdbID (fileCollection Absent))"
    and b: "[] \<notin> set (map imdbID (fileCollection Absent))"
    by (simp_all add: fileCollection_def)
  have c: "?s = run [Add True True (Some inception), Add True False (Some matrix),
        Add True True (Some inception), Remove True True ''tt0133093'',
        Add False True (Some matrix)] (onModuleInit True Absent)"
    by (simp only: example_run)
  have d: "imdbID inception \<in> set (map imdbID (fileCollection (favoritesFile ?s)))"
    by (simp add: fileCollection_def)
  from favorites_uniqueness [OF a b c, of inception True True] d
  show ?thesis by (simp add: fileCollection_def)
qed

section \<open>Failed mutations and the file\<close>

lemma addToFavorites_alreadyExists_file:
  assumes "fst (addToFavorites l w (Some m) s) =
             Inl (HttpException ''Movie already in favorites'' BAD_REQUEST)"
  shows "snd (addToFavorites l w (Some m) s) = s\<lparr>favorites := fileCollection (favoritesFile s)\<rparr>"
proof (cases "imdbID m = []")
  case True
  then have "addToFavorites l w (Some m) s = (Inl (HttpException ''Invalid movie data'' BAD_REQUEST), s)"
    by (simp add: addToFavorites_invalid)
  with assms show ?thesis by simp
next
  case ne: False
  show ?thesis
  proof (cases "imdbID m \<in> set (map imdbID (fileCollection (favoritesFile s)))")
    case True
    with ne show ?thesis by (simp add: addToFavorites_present)
  next
    case False
    with ne assms show ?thesis by (simp add: addToFavorites_absent split: if_splits)
  qed
qed

lemma removeFromFavorites_notFound_file:
  assumes "fst (removeFromFavorites l w movieId s) =
             Inl (HttpException ''Movie not found in favorites'' NOT_FOUND)"
  shows "snd (removeFromFavorites l w movieId s) = reloadFavorites l s"
proof (cases "list_all isWhiteSpace movieId")
  case True
  with assms show ?thesis by (simp add: removeFromFavorites_blank)
next
  case nb: False
  from assms removeFromFavorites_notFound_iff [OF nb, of l w s]
  have "movieId \<notin> set (map imdbID (fileCollection (favoritesFile s)))"
    by blast
  with nb show ?thesis by (simp add: removeFromFavorites_absent)
qed

text \<open>
  C10, as the code has it. A failed add (no record, an empty id, or ``Movie already in
  favorites'') and a remove refused for a blank id write nothing: the file is exactly as
  it was (and before the reload the memory too). A remove that throws ``Movie not found in
  favorites'' has only reloaded: a file that exists, readable or not, is exactly as it was;
  a missing file has been created holding the empty collection, if that write succeeded.
  In every case the collection the file holds is what it was.
\<close>

theorem failed_mutation_file:
  "addToFavorites l w None s = (Inl (HttpException ''Invalid movie data'' BAD_REQUEST), s)
   \<and> (imdbID m = [] \<longrightarrow>
        addToFavorites l w (Some m) s = (Inl (HttpException ''Invalid movie data'' BAD_REQUEST), s))
   \<and> (fst (addToFavorites l w (Some m) s) =
          Inl (HttpException ''Movie already in favorites'' BAD_REQUEST) \<longrightarrow>
        favoritesFile (snd (addToFavorites l w (Some m) s)) = favoritesFile s)
   \<and> (list_all isWhiteSpace movieId \<longrightarrow>
        removeFromFavorites l w movieId s =
          (Inl (HttpException ''Movie ID is required'' BAD_REQUEST), s))
   \<and> (fst (removeFromFavorites l w movieId s) =
          Inl (HttpException ''Movie not found in favorites'' NOT_FOUND) \<longrightarrow>
        favoritesFile (snd (removeFromFavorites l w movieId s)) =
          (if favoritesFile s = Absent \<and> l then Stored [] else favoritesFile s)
        \<and> fileCollection (favoritesFile (snd (removeFromFavorites l w movieId s))) =
            fileCollection (favoritesFile s))"
proof (intro conjI impI)
  show "addToFavorites l w None s = (Inl (HttpException ''Invalid movie data'' BAD_REQUEST), s)"
    by (simp add: addToFavorites_invalid)
  show "addToFavorites l w (Some m) s = (Inl (HttpException ''Invalid movie data'' BAD_REQUEST), s)"
    if "imdbID m = []"
    using that by (simp add: addToFavorites_invalid)
  show "favoritesFile (snd (addToFavorites l w (Some m) s)) = favoritesFile s"
    if "fst (addToFavorites l w (Some m) s) =
          Inl (HttpException ''Movie already in favorites'' BAD_REQUEST)"
    using addToFavorites_alreadyExists_file [OF that] by simp
  show "removeFromFavorites l w movieId s =
          (Inl (HttpException ''Movie ID is required'' BAD_REQUEST), s)"
    if "list_all isWhiteSpace movieId"
    using that by (rule removeFromFavorites_blank)
  assume nf: "fst (removeFromFavorites l w movieId s) =
          Inl (HttpException ''Movie not found in favorites'' NOT_FOUND)"
  show "favoritesFile (snd (removeFromFavorites l w movieId s)) =
          (if favoritesFile s = Absent \<and> l then Stored [] else favoritesFile s)"
    using removeFromFavorites_notFound_file [OF nf] by (simp add: favoritesFile_reload)
  show "fileCollection (favoritesFile (snd (removeFromFavorites l w movieId s))) =
            fileCollection (favoritesFile s)"
    using removeFromFavorites_notFound_file [OF nf] by simp
qed

lemma example_failures:
  "fst (addToFavorites True True (Some inception)
          \<lparr>favorites = [], favoritesFile = Stored [inception]\<rparr>)
     = Inl (HttpException ''Movie already in favorites'' BAD_REQUEST)"
  "fst (removeFromFavorites True True ''tt0133093''
          \<lparr>favorites = [], favoritesFile = Unparseable ''{not json''\<rparr>)
     = Inl (HttpException ''Movie not found in favorites'' NOT_FOUND)"
  by (simp_all add: addToFavorites_def removeFromFavorites_def
      reloadFavorites_def loadFavorites_def saveFavorites_def some_def findIndex_def
      trim_def isWhiteSpace_def inception_def Let_def)

theorem failed_mutation_file_witness:
  "favoritesFile (snd (addToFavorites True True (Some inception)
          \<lparr>favorites = [], favoritesFile = Stored [inception]\<rparr>)) = Stored [inception]
   \<and> favoritesFile (snd (removeFromFavorites True True ''tt0133093''
          \<lparr>favorites = [], favoritesFile = Unparseable ''{not json''\<rparr>))
       = Unparseable ''{not json''
   \<and> removeFromFavorites True True [CHR 0x0A] \<lparr>favorites = [inception], favoritesFile = Absent\<rparr>
       = (Inl (HttpException ''Movie ID is required'' BAD_REQUEST),
          \<lparr>favorites = [inception], favoritesFile = Absent\<rparr>)
   \<and> addToFavorites True True (Some (inception\<lparr>imdbID := []\<rparr>))
         \<lparr>favorites = [], favoritesFile = Absent\<rparr>
       = (Inl (HttpException ''Invalid movie data'' BAD_REQUEST),
          \<lparr>favorites = [], favoritesFile = Absent\<rparr>)"
proof -
  have blank: "list_all isWhiteSpace [CHR 0x0A]" by (simp add: isWhiteSpace_def)
  have noid: "imdbID (inception\<lparr>imdbID := []\<rparr>) = []" by simp
  from failed_mutation_file [where l = True and w = True and m = "inception\<lparr>imdbID := []\<rparr>"
      and s = "\<lparr>favorites = [], favoritesFile = Absent\<rparr>"] noid
  have 4: "addToFavorites True True (Some (inception\<lparr>imdbID := []\<rparr>))
         \<lparr>favorites = [], favoritesFile = Absent\<rparr>
       = (Inl (HttpException ''Invalid movie data'' BAD_REQUEST),
          \<lparr>favorites = [], favoritesFile = Absent\<rparr>)"
    by blast
  from failed_mutation_file [where l = True and w = True and m = inception
      and s = "\<lparr>favorites = [], favoritesFile = Stored [inception]\<rparr>"] example_failures(1)
  have 1: "favoritesFile (snd (addToFavorites True True (Some inception)
          \<lparr>favorites = [], favoritesFile = Stored [inception]\<rparr>)) = Stored [inception]"
    by simp
  from failed_mutation_file [where l = True and w = True and movieId = "''tt0133093''"
      and s = "\<lparr>favorites = [], favoritesFile = Unparseable ''{not json''\<rparr>"] example_failures(2)
  have 2: "favoritesFile (snd (removeFromFavorites True True ''tt0133093''
          \<lparr>favorites = [], favoritesFile = Unparseable ''{not json''\<rparr>))
       = Unparseable ''{not json''"
    by simp
  from failed_mutation_file [where l = True and w = True and movieId = "[CHR 0x0A]"
      and s = "\<lparr>favorites = [inception], favoritesFile = Absent\<rparr>"] blank
  have 3: "removeFromFavorites True True [CHR 0x0A] \<lparr>favorites = [inception], favoritesFile = Absent\<rparr>
       = (Inl (HttpException ''Movie ID is required'' BAD_REQUEST),
          \<lparr>favorites = [inception], favoritesFile = Absent\<rparr>)"
    by blast
  from 1 2 3 4 show ?thesis by blast
qed

text \<open>
  The claim as stated has the file exactly as before on every such failure: with the file
  missing, a remove that throws ``Movie not found in favorites'' has created the file.
\<close>

theorem failed_mutation_file_counterexample:
  "removeFromFavorites True True ''tt1375666'' \<lparr>favorites = [], favoritesFile = Absent\<rparr>
     = (Inl (HttpException ''Movie not found in favorites'' NOT_FOUND),
        \<lparr>favorites = [], favoritesFile = Stored []\<rparr>)
   \<and> Stored [] \<noteq> Absent"
  by (simp add: removeFromFavorites_def reloadFavorites_def loadFavorites_def saveFavorites_def
      findIndex_def trim_def isWhiteSpace_def Let_def)

section \<open>A file that is missing or cannot be read\<close>

lemma addToFavorites_success_file:
  assumes "fst (addToFavorites l w (Some m) s) = Inr msg"
  shows "snd (addToFavorites l w (Some m) s) =
           s\<lparr>favorites := fileCollection (favoritesFile s) @ [m],
             favoritesFile := Stored (fileCollection (favoritesFile s) @ [m])\<rparr>"
proof (cases "imdbID m = []")
  case True
  then have "addToFavorites l w (Some m) s = (Inl (HttpException ''Invalid movie data'' BAD_REQUEST), s)"
    by (simp add: addToFavorites_invalid)
  with assms show ?thesis by simp
next
  case ne: False
  show ?thesis
  proof (cases "imdbID m \<in> set (map imdbID (fileCollection (favoritesFile s)))")
    case True
    with ne assms show ?thesis by (simp add: addToFavorites_present)
  next
    case False
    with ne assms show ?thesis by (simp add: addToFavorites_absent split: if_splits)
  qed
qed

lemma getFavorites_fst_collection:
  assumes "fileCollection f = fileCollection g"
  shows "fst (getFavorites l page pageSize \<lparr>favorites = mem, favoritesFile = f\<rparr>)
       = fst (getFavorites l page pageSize \<lparr>favorites = mem, favoritesFile = g\<rparr>)"
  using assms by (simp add: getFavorites_def Let_def)

lemma removeFromFavorites_fst_empty:
  assumes "fileCollection f = []"
  shows "fst (removeFromFavorites l w movieId \<lparr>favorites = mem, favoritesFile = f\<rparr>)
       = (if list_all isWhiteSpace movieId
          then Inl (HttpException ''Movie ID is required'' BAD_REQUEST)
          else Inl (HttpException ''Movie not found in favorites'' NOT_FOUND))"
  using assms by (simp add: removeFromFavorites_blank removeFromFavorites_absent)

lemma addToFavorites_empty:
  assumes "fileCollection f = []" and "imdbID m \<noteq> []"
  shows "addToFavorites l w (Some m) \<lparr>favorites = mem, favoritesFile = f\<rparr>
       = (if w then (Inr ''Movie added to favorites'',
                     \<lparr>favorites = [m], favoritesFile = Stored [m]\<rparr>)
          else (Inl (HttpException ''Failed to save favorites'' INTERNAL_SERVER_ERROR),
                \<lparr>favorites = [m],
                 favoritesFile = (if f = Absent \<and> l then Stored [] else f)\<rparr>))"
  using assms by (simp add: addToFavorites_absent reloadFavorites_eq)

lemma addToFavorites_fst_empty:
  assumes "fileCollection f = []"
  shows "fst (addToFavorites l w movieToAdd \<lparr>favorites = mem, favoritesFile = f\<rparr>)
       = (if movieToAdd = None \<or> imdbID (the movieToAdd) = []
          then Inl (HttpException ''Invalid movie data'' BAD_REQUEST)
          else if w then Inr ''Movie added to favorites''
          else Inl (HttpException ''Failed to save favorites'' INTERNAL_SERVER_ERROR))"
proof (cases "movieToAdd = None \<or> imdbID (the movieToAdd) = []")
  case True
  then show ?thesis by (simp add: addToFavorites_invalid)
next
  case False
  then obtain m where "movieToAdd = Some m" "imdbID m \<noteq> []" by auto
  with assms show ?thesis by (simp add: addToFavorites_empty)
qed

text \<open>
  C7. Let the file be missing or hold text that cannot be read, whatever is in memory.
  Then \<^verbatim>\<open>getFavorites\<close> with a valid page and page size returns the empty page,
  \<^verbatim>\<open>removeFromFavorites\<close> of an id that is not blank throws ``Movie not found in
  favorites'', and \<^verbatim>\<open>addToFavorites\<close> of a record with an id finds no duplicate: when its
  write succeeds it returns its success message and the file holds exactly the record
  added, which a later load reads back; when its write fails it throws the write's status
  500. Each of the three answers as it does on a file that holds the empty collection, so
  the failed read is never what the caller gets. And on any store whose file holds no
  record, an add that returns leaves the file holding exactly the added record.
\<close>

theorem unreadable_file_recovery:
  assumes "f = Absent \<or> f = Unparseable t"
  shows "(\<not> lessThanOne page \<and> isInteger page \<and> \<not> lessThanOne pageSize \<and> isInteger pageSize \<longrightarrow>
            fst (getFavorites l page pageSize \<lparr>favorites = mem, favoritesFile = f\<rparr>) =
              Inr \<lparr>fr_favorites = [], fr_count = 0, fr_totalResults = ''0'',
                   fr_currentPage = page, fr_totalPages = 0\<rparr>)
         \<and> (\<not> list_all isWhiteSpace movieId \<longrightarrow>
              fst (removeFromFavorites l w movieId \<lparr>favorites = mem, favoritesFile = f\<rparr>) =
                Inl (HttpException ''Movie not found in favorites'' NOT_FOUND))
         \<and> (imdbID m \<noteq> [] \<longrightarrow>
              addToFavorites l True (Some m) \<lparr>favorites = mem, favoritesFile = f\<rparr> =
                (Inr ''Movie added to favorites'', \<lparr>favorites = [m], favoritesFile = Stored [m]\<rparr>)
              \<and> favorites (loadFavorites l' \<lparr>favorites = mem', favoritesFile = Stored [m]\<rparr>) = [m]
              \<and> fst (addToFavorites l False (Some m) \<lparr>favorites = mem, favoritesFile = f\<rparr>) =
                  Inl (HttpException ''Failed to save favorites'' INTERNAL_SERVER_ERROR))
         \<and> fst (getFavorites l page pageSize \<lparr>favorites = mem, favoritesFile = f\<rparr>) =
             fst (getFavorites l page pageSize \<lparr>favorites = mem, favoritesFile = Stored []\<rparr>)
         \<and> fst (removeFromFavorites l w movieId \<lparr>favorites = mem, favoritesFile = f\<rparr>) =
             fst (removeFromFavorites l w movieId \<lparr>favorites = mem, favoritesFile = Stored []\<rparr>)
         \<and> fst (addToFavorites l w movieToAdd \<lparr>favorites = mem, favoritesFile = f\<rparr>) =
             fst (addToFavorites l w movieToAdd \<lparr>favorites = mem, favoritesFile = Stored []\<rparr>)
         \<and> (fileCollection (favoritesFile s) = [] \<and> fst (addToFavorites l w (Some m) s) = Inr msg \<longrightarrow>
              favoritesFile (snd (addToFavorites l w (Some m) s)) = Stored [m])"
proof -
  from assms have e: "fileCollection f = []" by auto
  have e0: "fileCollection (Stored []) = []" by simp
  have 1: "fst (getFavorites l page pageSize \<lparr>favorites = mem, favoritesFile = f\<rparr>) =
              Inr \<lparr>fr_favorites = [], fr_count = 0, fr_totalResults = ''0'',
                   fr_currentPage = page, fr_totalPages = 0\<rparr>"
    if "\<not> lessThanOne page \<and> isInteger page \<and> \<not> lessThanOne pageSize \<and> isInteger pageSize"
    using that e by (simp add: getFavorites_empty)
  have 2: "fst (removeFromFavorites l w movieId \<lparr>favorites = mem, favoritesFile = f\<rparr>) =
                Inl (HttpException ''Movie not found in favorites'' NOT_FOUND)"
    if "\<not> list_all isWhiteSpace movieId"
    using that by (simp add: removeFromFavorites_fst_empty [OF e])
  have 3: "addToFavorites l True (Some m) \<lparr>favorites = mem, favoritesFile = f\<rparr> =
                (Inr ''Movie added to favorites'', \<lparr>favorites = [m], favoritesFile = Stored [m]\<rparr>)
              \<and> favorites (loadFavorites l' \<lparr>favorites = mem', favoritesFile = Stored [m]\<rparr>) = [m]
              \<and> fst (addToFavorites l False (Some m) \<lparr>favorites = mem, favoritesFile = f\<rparr>) =
                  Inl (HttpException ''Failed to save favorites'' INTERNAL_SERVER_ERROR)"
    if "imdbID m \<noteq> []"
    using that by (simp add: addToFavorites_empty [OF e] loadFavorites_def)
  have 4: "fst (getFavorites l page pageSize \<lparr>favorites = mem, favoritesFile = f\<rparr>) =
             fst (getFavorites l page pageSize \<lparr>favorites = mem, favoritesFile = Stored []\<rparr>)"
    using e by (intro getFavorites_fst_collection) simp
  have 5: "fst (removeFromFavorites l w movieId \<lparr>favorites = mem, favoritesFile = f\<rparr>) =
             fst (removeFromFavorites l w movieId \<lparr>favorites = mem, favoritesFile = Stored []\<rparr>)"
    by (simp only: removeFromFavorites_fst_empty [OF e] removeFromFavorites_fst_empty [OF e0])
  have 6: "fst (addToFavorites l w movieToAdd \<lparr>favorites = mem, favoritesFile = f\<rparr>) =
             fst (addToFavorites l w movieToAdd \<lparr>favorites = mem, favoritesFile = Stored []\<rparr>)"
    by (simp only: addToFavorites_fst_empty [OF e] addToFavorites_fst_empty [OF e0])
  have 7: "favoritesFile (snd (addToFavorites l w (Some m) s)) = Stored [m]"
    if "fileCollection (favoritesFile s) = [] \<and> fst (addToFavorites l w (Some m) s) = Inr msg"
    using that addToFavorites_success_file [of l w m s msg] by simp
  from 1 2 3 4 5 6 7 show ?thesis by blast
qed


theorem unreadable_file_recovery_witness:
  "fst (getFavorites True (Num 1) (Num 10)
          \<lparr>favorites = [matrix], favoritesFile = Unparseable ''{not json''\<rparr>)
     = Inr \<lparr>fr_favorites = [], fr_count = 0, fr_totalResults = ''0'',
            fr_currentPage = Num 1, fr_totalPages = 0\<rparr>
   \<and> fst (removeFromFavorites True True ''tt0133093''
          \<lparr>favorites = [matrix], favoritesFile = Unparseable ''{not json''\<rparr>)
     = Inl (HttpException ''Movie not found in favorites'' NOT_FOUND)
   \<and> addToFavorites True True (Some inception)
          \<lparr>favorites = [matrix], favoritesFile = Unparseable ''{not json''\<rparr>
     = (Inr ''Movie added to favorites'',
        \<lparr>favorites = [inception], favoritesFile = Stored [inception]\<rparr>)
   \<and> addToFavorites False True (Some inception) \<lparr>favorites = [matrix], favoritesFile = Absent\<rparr>
     = (Inr ''Movie added to favorites'',
        \<lparr>favorites = [inception], favoritesFile = Stored [inception]\<rparr>)"
proof -
  have u: "Unparseable ''{not json'' = Absent \<or> Unparseable ''{not json'' = Unparseable ''{not json''"
    by simp
  have a: "Absent = Absent \<or> Absent = Unparseable []" by simp
  have v: "\<not> lessThanOne (Num 1) \<and> isInteger (Num 1) \<and> \<not> lessThanOne (Num 10) \<and> isInteger (Num 10)"
    by simp
  have nb: "\<not> list_all isWhiteSpace ''tt0133093''" by (simp add: isWhiteSpace_def)
  have m: "imdbID inception \<noteq> []" by (simp add: inception_def)
  from unreadable_file_recovery [OF u, where page = "Num 1" and pageSize = "Num 10"
      and l = True and mem = "[matrix]"] v
  have 1: "fst (getFavorites True (Num 1) (Num 10)
          \<lparr>favorites = [matrix], favoritesFile = Unparseable ''{not json''\<rparr>)
     = Inr \<lparr>fr_favorites = [], fr_count = 0, fr_totalResults = ''0'',
            fr_currentPage = Num 1, fr_totalPages = 0\<rparr>"
    by blast
  from unreadable_file_recovery [OF u, where movieId = "''tt0133093''"
      and l = True and w = True and mem = "[matrix]"] nb
  have 2: "fst (removeFromFavorites True True ''tt0133093''
          \<lparr>favorites = [matrix], favoritesFile = Unparseable ''{not json''\<rparr>)
     = Inl (HttpException ''Movie not found in favorites'' NOT_FOUND)"
    by blast
  from unreadable_file_recovery [OF u, where m = inception and l = True and mem = "[matrix]"] m
  have 3: "addToFavorites True True (Some inception)
          \<lparr>favorites = [matrix], favoritesFile = Unparseable ''{not json''\<rparr>
     = (Inr ''Movie added to favorites'',
        \<lparr>favorites = [inception], favoritesFile = Stored [inception]\<rparr>)"
    by blast
  from unreadable_file_recovery [OF a, where m = inception and l = False and mem = "[matrix]"] m
  have 4: "addToFavorites False True (Some inception) \<lparr>favorites = [matrix], favoritesFile = Absent\<rparr>
     = (Inr ''Movie added to favorites'',
        \<lparr>favorites = [inception], favoritesFile = Stored [inception]\<rparr>)"
    by blast
  from 1 2 3 4 show ?thesis by blast
qed

section \<open>Search results and the favorite flag\<close>

lemma getMovieByTitle_Inr:
  assumes "getMovieByTitle q page outcome s = Inr res"
  shows "\<exists>raw. searchMovies q page outcome = Inr raw
           \<and> res = \<lparr>sr_movies = map (tag (getFavoritesSet s)) (sp_movies raw),
                     sr_count = length (sp_movies raw),
                     sr_totalResults = sp_totalResults raw\<rparr>"
  using assms
  by (cases "searchMovies q page outcome") (auto simp: getMovieByTitle_def Let_def tag_def)

lemma tag_fields [simp]:
  "imdbID (tag F movie) = imdbID_omdb movie"
  "isFavorite (tag F movie) = (imdbID_omdb movie \<in> F)"
  by (simp_all add: tag_def)

lemma searchMovies_Fulfilled:
  assumes "\<not> list_all isWhiteSpace q" and "\<not> lessThanOne page" and "isInteger page"
  shows "\<exists>raw. searchMovies q page (Fulfilled d) = Inr raw"
proof -
  from assms(1) have "trim q \<noteq> []" by (simp add: trim_Nil_iff)
  then have "q \<noteq> []" by (auto simp: trim_def)
  with \<open>trim q \<noteq> []\<close> assms(2,3) show ?thesis
    by (simp add: searchMovies_def)
qed

lemma getFavoritesSet_after_add:
  assumes "fst (addToFavorites l w (Some m) s) = Inr msg"
  shows "imdbID m \<in> getFavoritesSet (snd (addToFavorites l w (Some m) s))"
  using addToFavorites_success_file [OF assms] by (simp add: getFavoritesSet_def)


text \<open>
  C8. Whenever \<^verbatim>\<open>getMovieByTitle\<close> returns, its items are the provider's items in their
  order, and each has the favorite flag true exactly when its id is in the set of ids
  \<^verbatim>\<open>getFavoritesSet\<close> makes of the collection in memory at that call. So when an add of
  \<open>m\<close> has returned and the search runs on the state it left, every item with the id of
  \<open>m\<close> has the flag true. With a query that is not blank and a valid page, the search
  returns whenever the provider answers.
\<close>

theorem search_favorite_tagging:
  "(getMovieByTitle q page outcome s = Inr res \<longrightarrow>
      (\<exists>raw. searchMovies q page outcome = Inr raw
         \<and> map imdbID (sr_movies res) = map imdbID_omdb (sp_movies raw))
      \<and> (\<forall>x\<in>set (sr_movies res). isFavorite x = (imdbID x \<in> getFavoritesSet s)))
   \<and> (fst (addToFavorites l w (Some m) s) = Inr msg
        \<and> getMovieByTitle q page outcome (snd (addToFavorites l w (Some m) s)) = Inr res' \<longrightarrow>
        (\<forall>x\<in>set (sr_movies res'). imdbID x = imdbID m \<longrightarrow> isFavorite x))
   \<and> (\<not> list_all isWhiteSpace q \<and> \<not> lessThanOne page \<and> isInteger page \<longrightarrow>
        (\<exists>r. getMovieByTitle q page (Fulfilled d) s = Inr r))"
proof (intro conjI impI)
  assume a: "getMovieByTitle q page outcome s = Inr res"
  from getMovieByTitle_Inr [OF a] obtain raw where raw: "searchMovies q page outcome = Inr raw"
    "res = \<lparr>sr_movies = map (tag (getFavoritesSet s)) (sp_movies raw),
            sr_count = length (sp_movies raw), sr_totalResults = sp_totalResults raw\<rparr>"
    by blast
  from raw(2) have "map imdbID (sr_movies res) = map imdbID_omdb (sp_movies raw)"
    by (simp add: comp_def)
  with raw(1) show "\<exists>raw. searchMovies q page outcome = Inr raw
         \<and> map imdbID (sr_movies res) = map imdbID_omdb (sp_movies raw)"
    by blast
  from raw(2) show "\<forall>x\<in>set (sr_movies res). isFavorite x = (imdbID x \<in> getFavoritesSet s)"
    by auto
next
  assume b: "fst (addToFavorites l w (Some m) s) = Inr msg
        \<and> getMovieByTitle q page outcome (snd (addToFavorites l w (Some m) s)) = Inr res'"
  let ?s' = "snd (addToFavorites l w (Some m) s)"
  from b have in_set: "imdbID m \<in> getFavoritesSet ?s'"
    by (intro getFavoritesSet_after_add [of l w m s msg]) simp
  from b have "getMovieByTitle q page outcome ?s' = Inr res'" by simp
  from getMovieByTitle_Inr [OF this] obtain raw :: search_page where
    "res' = \<lparr>sr_movies = map (tag (getFavoritesSet ?s')) (sp_movies raw),
            sr_count = length (sp_movies raw), sr_totalResults = sp_totalResults raw\<rparr>"
    by blast
  with in_set show "\<forall>x\<in>set (sr_movies res'). imdbID x = imdbID m \<longrightarrow> isFavorite x"
    by auto
next
  assume c: "\<not> list_all isWhiteSpace q \<and> \<not> lessThanOne page \<and> isInteger page"
  then obtain raw where "searchMovies q page (Fulfilled d) = Inr raw"
    using searchMovies_Fulfilled [of q page d] by blast
  then show "\<exists>r. getMovieByTitle q page (Fulfilled d) s = Inr r"
    by (simp add: getMovieByTitle_def Let_def)
qed

lemma example_search:
  "getMovieByTitle ''inception'' (Num 1)
     (Fulfilled \<lparr>Search = Some found, totalResults = Some ''2'', Response = ''True'',
                 Error = None\<rparr>)
     \<lparr>favorites = [inception], favoritesFile = Stored [inception]\<rparr>
   = Inr \<lparr>sr_movies = map (tag {''tt1375666''}) found, sr_count = 2, sr_totalResults = ''2''\<rparr>"
  by (simp add: getMovieByTitle_def searchMovies_def trim_def isWhiteSpace_def truthy_def
      getFavoritesSet_def inception_def found_def tag_def Let_def)

lemma example_add:
  "addToFavorites True True (Some inception) \<lparr>favorites = [], favoritesFile = Absent\<rparr>
     = (Inr ''Movie added to favorites'',
        \<lparr>favorites = [inception], favoritesFile = Stored [inception]\<rparr>)"
  by (simp add: addToFavorites_def reloadFavorites_def loadFavorites_def saveFavorites_def
      some_def inception_def Let_def)

theorem search_favorite_tagging_witness:
  "map isFavorite (sr_movies (projr (getMovieByTitle ''inception'' (Num 1)
     (Fulfilled \<lparr>Search = Some found, totalResults = Some ''2'', Response = ''True'',
                 Error = None\<rparr>)
     (snd (addToFavorites True True (Some inception)
             \<lparr>favorites = [], favoritesFile = Absent\<rparr>))))) = [True, False]
   \<and> isFavorite (hd (sr_movies (projr (getMovieByTitle ''inception'' (Num 1)
     (Fulfilled \<lparr>Search = Some found, totalResults = Some ''2'', Response = ''True'',
                 Error = None\<rparr>)
     (snd (addToFavorites True True (Some inception)
             \<lparr>favorites = [], favoritesFile = Absent\<rparr>))))))"
proof -
  let ?out = "Fulfilled \<lparr>Search = Some found, totalResults = Some ''2'', Response = ''True'',
                 Error = None\<rparr>"
  let ?s0 = "\<lparr>favorites = [], favoritesFile = Absent\<rparr>"
  let ?res = "\<lparr>sr_movies = map (tag {''tt1375666''}) found, sr_count = 2, sr_totalResults = ''2''\<rparr>"
  have added: "fst (addToFavorites True True (Some inception) ?s0) = Inr ''Movie added to favorites''"
    by (simp add: example_add)
  have searched: "getMovieByTitle ''inception'' (Num 1) ?out
      (snd (addToFavorites True True (Some inception) ?s0)) = Inr ?res"
    by (simp add: example_add example_search)
  from search_favorite_tagging [where l = True and w = True and m = inception and s = ?s0
      and q = "''inception''" and page = "Num 1" and outcome = ?out and res' = ?res
      and msg = "''Movie added to favorites''"] added searched
  have all: "\<forall>x\<in>set (sr_movies ?res). imdbID x = imdbID inception \<longrightarrow> isFavorite x"
    by blast
  have "hd (sr_movies ?res) \<in> set (sr_movies ?res)" by (simp add: found_def)
  moreover have "imdbID (hd (sr_movies ?res)) = imdbID inception"
    by (simp add: found_def inception_def)
  ultimately have first: "isFavorite (hd (sr_movies ?res))" using all by blast
  have flags: "map isFavorite (sr_movies ?res) = [True, False]"
    by (simp add: found_def)
  from first flags searched show ?thesis by simp
qed

end
